theory Spec2Isabelle
  imports Complex_Main "HOL-Library.AList"
begin

section \<open>Contract Intelligence Parser: the extraction and scoring core\<close>

text \<open>
  A shallow embedding of \<^verbatim>\<open>backend/app/models.py\<close> and of
  \<^verbatim>\<open>backend/app/utils/pdf_parser.py\<close>.

  Conventions of the embedding.
  \<^item> A Python \<^verbatim>\<open>str\<close> is a \<open>string\<close>; its characters are the code points 0..255.
  \<^item> A Python \<^verbatim>\<open>float\<close> is a \<open>real\<close>: rounding and overflow to infinity are not
    modelled. A Python \<^verbatim>\<open>int\<close> is an \<open>int\<close>.
  \<^item> \<^verbatim>\<open>Optional[T]\<close> is \<open>T option\<close>; \<^verbatim>\<open>None\<close> is \<open>None\<close>.
  \<^item> A \<^verbatim>\<open>dict\<close> is an association list in insertion order.
  \<^item> An exception is the \<open>Inl\<close> branch of a sum.
\<close>

subsection \<open>The data model (models.py)\<close>

text \<open>
  Every class of models.py is a pydantic \<^verbatim>\<open>BaseModel\<close> and becomes a record. Field names
  are the source's; where two classes share a field name the later one carries a suffix
  naming its class (\<open>name_bc\<close> is \<^verbatim>\<open>BillingContact.name\<close>).
\<close>

record PartyInfo =
  name :: "string option"
  address :: "string option"
  phone :: "string option"
  email :: "string option"
  tax_id :: "string option"
  account_number :: "string option"

record AuthorizedRepresentative =
  name_rep :: "string option"
  title_rep :: "string option"

record AuthorizedRepresentatives =
  service_provider_rep :: "AuthorizedRepresentative option"
  customer_rep :: "AuthorizedRepresentative option"

record Parties =
  service_provider :: "PartyInfo option"
  customer :: "PartyInfo option"
  authorized_representatives :: "AuthorizedRepresentatives option"

record BillingContact =
  name_bc :: "string option"
  title_bc :: "string option"
  email_bc :: "string option"
  phone_bc :: "string option"

record AccountInfo =
  account_number_ai :: "string option"
  billing_contact :: "BillingContact option"

record LineItem =
  service :: "string option"
  quantity :: "int option"
  unit :: "string option"
  unit_price :: "real option"
  monthly_total :: "real option"

record FinancialDetails =
  line_items :: "LineItem list option"
  monthly_costs :: "(string \<times> real) list option"
  one_time_costs :: "(string \<times> real) list option"
  total_monthly :: "real option"
  total_one_time :: "real option"
  annual_contract_value :: "real option"
  currency :: "string option"

record BankingInfo =
  bank :: "string option"
  account :: "string option"
  routing :: "string option"

text \<open>
  \<^verbatim>\<open>late_payment_fee\<close> is declared \<^verbatim>\<open>Optional[float]\<close>, and the parser assigns a
  formatted string to it (assignment is not validated): the field holds either.
\<close>

datatype float_or_str = Float real | Str string

record PaymentStructure =
  payment_terms :: "string option"
  payment_schedule :: "string option"
  payment_due_date :: "string option"
  payment_method :: "string option"
  late_payment_terms :: "string option"
  late_payment_fee :: "float_or_str option"
  banking_info :: "BankingInfo option"

record RevenueClassification =
  type :: "string option"
  contract_term :: "string option"
  billing_cycle :: "string option"
  auto_renewal :: "string option"
  termination_notice :: "string option"
  pricing_adjustments :: "string option"

record ResponseTimes =
  critical_issues :: "string option"
  high_priority :: "string option"
  medium_priority :: "string option"
  low_priority :: "string option"

record PerformanceMetrics =
  system_response_time :: "string option"
  backup_success_rate :: "string option"
  security_patch_deployment :: "string option"

record ServiceCredits =
  availability_penalty :: "string option"
  response_time_penalty :: "string option"
  maximum_credits :: "string option"

text \<open>
  \<^verbatim>\<open>service_credits\<close> is declared \<^verbatim>\<open>Optional[ServiceCredits]\<close>, and the parser assigns a
  list of \<^verbatim>\<open>ServiceCredits\<close> to it: the field holds either.
\<close>

datatype credits_field = One_credits ServiceCredits | Credits_list "ServiceCredits list"

record SLATerms =
  uptime_commitment :: "string option"
  response_times :: "ResponseTimes option"
  performance_metrics :: "PerformanceMetrics option"
  service_credits :: "credits_field option"

record GapAnalysis =
  missing_fields :: "string list option"
  incomplete_fields :: "string list option"
  notes_ga :: "string option"

record ExtractedData =
  parties :: "Parties option"
  account_info :: "AccountInfo option"
  financial_details :: "FinancialDetails option"
  payment_structure :: "PaymentStructure option"
  revenue_classification :: "RevenueClassification option"
  sla_terms :: "SLATerms option"

subsection \<open>Constructors\<close>

text \<open>
  A model built with no argument has every field at its declared default: \<^verbatim>\<open>None\<close>, and
  \<^verbatim>\<open>"USD"\<close> for \<^verbatim>\<open>FinancialDetails.currency\<close>.
\<close>

definition new_PartyInfo :: PartyInfo where
  "new_PartyInfo = \<lparr>name = None, address = None, phone = None, email = None, tax_id = None,
     account_number = None\<rparr>"

definition new_Parties :: Parties where
  "new_Parties = \<lparr>service_provider = None, customer = None, authorized_representatives = None\<rparr>"

definition new_BillingContact :: BillingContact where
  "new_BillingContact = \<lparr>name_bc = None, title_bc = None, email_bc = None, phone_bc = None\<rparr>"

definition new_AccountInfo :: AccountInfo where
  "new_AccountInfo = \<lparr>account_number_ai = None, billing_contact = None\<rparr>"

definition new_LineItem :: LineItem where
  "new_LineItem = \<lparr>service = None, quantity = None, unit = None, unit_price = None,
     monthly_total = None\<rparr>"

definition new_FinancialDetails :: FinancialDetails where
  "new_FinancialDetails = \<lparr>line_items = None, monthly_costs = None, one_time_costs = None,
     total_monthly = None, total_one_time = None, annual_contract_value = None,
     currency = Some ''USD''\<rparr>"

definition new_PaymentStructure :: PaymentStructure where
  "new_PaymentStructure = \<lparr>payment_terms = None, payment_schedule = None, payment_due_date = None,
     payment_method = None, late_payment_terms = None, late_payment_fee = None,
     banking_info = None\<rparr>"

definition new_RevenueClassification :: RevenueClassification where
  "new_RevenueClassification = \<lparr>type = None, contract_term = None, billing_cycle = None,
     auto_renewal = None, termination_notice = None, pricing_adjustments = None\<rparr>"

definition new_SLATerms :: SLATerms where
  "new_SLATerms = \<lparr>uptime_commitment = None, response_times = None, performance_metrics = None,
     service_credits = None\<rparr>"

definition new_ExtractedData :: ExtractedData where
  "new_ExtractedData = \<lparr>parties = None, account_info = None, financial_details = None,
     payment_structure = None, revenue_classification = None, sla_terms = None\<rparr>"

text \<open>
  A model built from keyword arguments: pydantic fills each declared field from the keyword
  that is the field's alias or (with \<^verbatim>\<open>populate_by_name = True\<close>) the field's name, leaves a
  field with no such keyword at its default \<^verbatim>\<open>None\<close>, and ignores every keyword that names no
  field (the default \<^verbatim>\<open>extra = 'ignore'\<close>; no model of models.py changes it).
  \<open>field_value kwargs keys\<close> is the value a field takes whose accepted keywords are \<open>keys\<close>.
\<close>

fun field_value :: "(string \<times> 'a option) list \<Rightarrow> string list \<Rightarrow> 'a option" where
  "field_value kwargs [] = None"
| "field_value kwargs (k # ks) =
     (case map_of kwargs k of Some v \<Rightarrow> v | None \<Rightarrow> field_value kwargs ks)"

definition init_ResponseTimes :: "(string \<times> string option) list \<Rightarrow> ResponseTimes" where
  "init_ResponseTimes kwargs =
     \<lparr>critical_issues = field_value kwargs [''Critical issues'', ''critical_issues''],
      high_priority = field_value kwargs [''High priority'', ''high_priority''],
      medium_priority = field_value kwargs [''Medium priority'', ''medium_priority''],
      low_priority = field_value kwargs [''Low priority'', ''low_priority'']\<rparr>"

definition init_PerformanceMetrics :: "(string \<times> string option) list \<Rightarrow> PerformanceMetrics" where
  "init_PerformanceMetrics kwargs =
     \<lparr>system_response_time = field_value kwargs [''System response time'', ''system_response_time''],
      backup_success_rate = field_value kwargs [''Backup success rate'', ''backup_success_rate''],
      security_patch_deployment =
        field_value kwargs [''Security patch deployment'', ''security_patch_deployment'']\<rparr>"

definition init_ServiceCredits :: "(string \<times> string option) list \<Rightarrow> ServiceCredits" where
  "init_ServiceCredits kwargs =
     \<lparr>availability_penalty = field_value kwargs [''availability_penalty''],
      response_time_penalty = field_value kwargs [''response_time_penalty''],
      maximum_credits = field_value kwargs [''maximum_credits'']\<rparr>"

definition init_BankingInfo :: "(string \<times> string option) list \<Rightarrow> BankingInfo" where
  "init_BankingInfo kwargs =
     \<lparr>bank = field_value kwargs [''bank''],
      account = field_value kwargs [''account''],
      routing = field_value kwargs [''routing'']\<rparr>"

subsection \<open>Python truth values\<close>

text \<open>
  \<^verbatim>\<open>if x:\<close> tests the truth value of \<open>x\<close>: \<^verbatim>\<open>None\<close>, the number zero and an empty string,
  list or dict are false; a model object (a pydantic \<^verbatim>\<open>BaseModel\<close> defines neither
  \<^verbatim>\<open>__bool__\<close> nor \<^verbatim>\<open>__len__\<close>) is always true.
\<close>

definition truthy_obj :: "'a option \<Rightarrow> bool" where
  "truthy_obj x = (x \<noteq> None)"

definition truthy_seq :: "'a list option \<Rightarrow> bool" where
  "truthy_seq x = (case x of None \<Rightarrow> False | Some s \<Rightarrow> s \<noteq> [])"

definition truthy_float :: "real option \<Rightarrow> bool" where
  "truthy_float x = (case x of None \<Rightarrow> False | Some r \<Rightarrow> r \<noteq> 0)"

subsection \<open>The confidence scorer\<close>

text \<open>
  \<^verbatim>\<open>PDFParser.calculate_confidence_score\<close> (pdf_parser.py, lines 558-606): a counter that
  grows under nested \<^verbatim>\<open>if\<close>s, capped by \<^verbatim>\<open>min(score, 100)\<close>.
  \<^verbatim>\<open>p and p.f\<close> is false when \<open>p\<close> is \<^verbatim>\<open>None\<close> and the truth value of \<open>p.f\<close> otherwise.
\<close>

definition and_field :: "'a option \<Rightarrow> ('a \<Rightarrow> string option) \<Rightarrow> bool" where
  "and_field p f = (case p of None \<Rightarrow> False | Some q \<Rightarrow> truthy_seq (f q))"

definition add_if :: "bool \<Rightarrow> int \<Rightarrow> int \<Rightarrow> int" where
  \<comment> \<open>\<^verbatim>\<open>if c: score += n\<close>\<close>
  "add_if c n score = (if c then score + n else score)"

definition calculate_confidence_score :: "ExtractedData \<Rightarrow> int" where
  "calculate_confidence_score extracted_data =
     (let score = 0;
          score =
            (case financial_details extracted_data of
               None \<Rightarrow> score
             | Some fd \<Rightarrow>
                 (let score = add_if (truthy_float (annual_contract_value fd)) 10 score;
                      score = add_if (truthy_seq (monthly_costs fd) \<or> truthy_seq (one_time_costs fd)) 10 score;
                      score = add_if (truthy_seq (line_items fd)) 10 score
                  in score));
          score =
            (case parties extracted_data of
               None \<Rightarrow> score
             | Some ps \<Rightarrow>
                 (let score = add_if (and_field (service_provider ps) name) 10 score;
                      score = add_if (and_field (customer ps) name) 10 score;
                      score = add_if (and_field (service_provider ps) email
                                      \<or> and_field (customer ps) email) 5 score
                  in score));
          score =
            (case payment_structure extracted_data of
               None \<Rightarrow> score
             | Some pay \<Rightarrow>
                 (let score = add_if (truthy_seq (payment_terms pay)) 10 score;
                      score = add_if (truthy_seq (payment_method pay)) 5 score;
                      score = add_if (truthy_seq (payment_schedule pay)) 5 score
                  in score));
          score =
            (case sla_terms extracted_data of
               None \<Rightarrow> score
             | Some sla \<Rightarrow>
                 (let score = add_if (truthy_seq (uptime_commitment sla)) 5 score;
                      score = add_if (truthy_obj (response_times sla)) 5 score;
                      score = add_if (truthy_obj (performance_metrics sla)) 5 score
                  in score));
          score =
            (case Option.bind (account_info extracted_data) billing_contact of
               None \<Rightarrow> score
             | Some bc \<Rightarrow>
                 (let score = add_if (truthy_seq (email_bc bc)) 5 score;
                      score = add_if (truthy_seq (phone_bc bc)) 5 score
                  in score))
      in min score 100)"

subsection \<open>The weight table of the specification\<close>

text \<open>
  The rows of the table in section 4.9 of the specification, with their points. A row's
  check is read in two ways: \<open>present\<close> is the specification's word (the field is there,
  whatever it holds); \<open>truthy\<close> is Python's truth value of the same field.
\<close>

datatype row =
    Annual_contract_value | Cost_breakdown | Line_items
  | Provider_name | Customer_name | Party_email
  | Payment_terms | Payment_method | Payment_schedule
  | Uptime_commitment | Response_times | Performance_metrics
  | Billing_email | Billing_phone

definition weight_table :: "(row \<times> int) list" where
  "weight_table =
     [(Annual_contract_value, 10), (Cost_breakdown, 10), (Line_items, 10),
      (Provider_name, 10), (Customer_name, 10), (Party_email, 5),
      (Payment_terms, 10), (Payment_method, 5), (Payment_schedule, 5),
      (Uptime_commitment, 5), (Response_times, 5), (Performance_metrics, 5),
      (Billing_email, 5), (Billing_phone, 5)]"

definition provider_of :: "ExtractedData \<Rightarrow> PartyInfo option" where
  "provider_of d = Option.bind (parties d) service_provider"

definition customer_of :: "ExtractedData \<Rightarrow> PartyInfo option" where
  "customer_of d = Option.bind (parties d) customer"

definition contact_of :: "ExtractedData \<Rightarrow> BillingContact option" where
  "contact_of d = Option.bind (account_info d) billing_contact"

fun present :: "row \<Rightarrow> ExtractedData \<Rightarrow> bool" where
  "present Annual_contract_value d = (Option.bind (financial_details d) annual_contract_value \<noteq> None)"
| "present Cost_breakdown d =
     (Option.bind (financial_details d) monthly_costs \<noteq> None
      \<or> Option.bind (financial_details d) one_time_costs \<noteq> None)"
| "present Line_items d = (Option.bind (financial_details d) line_items \<noteq> None)"
| "present Provider_name d = (Option.bind (provider_of d) name \<noteq> None)"
| "present Customer_name d = (Option.bind (customer_of d) name \<noteq> None)"
| "present Party_email d =
     (Option.bind (provider_of d) email \<noteq> None \<or> Option.bind (customer_of d) email \<noteq> None)"
| "present Payment_terms d = (Option.bind (payment_structure d) payment_terms \<noteq> None)"
| "present Payment_method d = (Option.bind (payment_structure d) payment_method \<noteq> None)"
| "present Payment_schedule d = (Option.bind (payment_structure d) payment_schedule \<noteq> None)"
| "present Uptime_commitment d = (Option.bind (sla_terms d) uptime_commitment \<noteq> None)"
| "present Response_times d = (Option.bind (sla_terms d) response_times \<noteq> None)"
| "present Performance_metrics d = (Option.bind (sla_terms d) performance_metrics \<noteq> None)"
| "present Billing_email d = (Option.bind (contact_of d) email_bc \<noteq> None)"
| "present Billing_phone d = (Option.bind (contact_of d) phone_bc \<noteq> None)"

fun truthy :: "row \<Rightarrow> ExtractedData \<Rightarrow> bool" where
  "truthy Annual_contract_value d = truthy_float (Option.bind (financial_details d) annual_contract_value)"
| "truthy Cost_breakdown d =
     (truthy_seq (Option.bind (financial_details d) monthly_costs)
      \<or> truthy_seq (Option.bind (financial_details d) one_time_costs))"
| "truthy Line_items d = truthy_seq (Option.bind (financial_details d) line_items)"
| "truthy Provider_name d = truthy_seq (Option.bind (provider_of d) name)"
| "truthy Customer_name d = truthy_seq (Option.bind (customer_of d) name)"
| "truthy Party_email d =
     (truthy_seq (Option.bind (provider_of d) email) \<or> truthy_seq (Option.bind (customer_of d) email))"
| "truthy Payment_terms d = truthy_seq (Option.bind (payment_structure d) payment_terms)"
| "truthy Payment_method d = truthy_seq (Option.bind (payment_structure d) payment_method)"
| "truthy Payment_schedule d = truthy_seq (Option.bind (payment_structure d) payment_schedule)"
| "truthy Uptime_commitment d = truthy_seq (Option.bind (sla_terms d) uptime_commitment)"
| "truthy Response_times d = truthy_obj (Option.bind (sla_terms d) response_times)"
| "truthy Performance_metrics d = truthy_obj (Option.bind (sla_terms d) performance_metrics)"
| "truthy Billing_email d = truthy_seq (Option.bind (contact_of d) email_bc)"
| "truthy Billing_phone d = truthy_seq (Option.bind (contact_of d) phone_bc)"

definition points :: "bool \<Rightarrow> int \<Rightarrow> int" where
  "points matched w = (if matched then w else 0)"

definition table_sum :: "(row \<Rightarrow> ExtractedData \<Rightarrow> bool) \<Rightarrow> ExtractedData \<Rightarrow> int" where
  \<comment> \<open>the sum across all matched rows\<close>
  "table_sum matched d = (\<Sum>(r, w) \<leftarrow> weight_table. points (matched r d) w)"

definition clamp_0_100 :: "int \<Rightarrow> int" where
  "clamp_0_100 x = max 0 (min 100 x)"


section \<open>Python strings and regular expressions\<close>

subsection \<open>Characters and strings\<close>

text \<open>
  The character tables are Python's for the code points 0..255: \<^verbatim>\<open>str.isspace\<close> (which is
  also the pattern \<^verbatim>\<open>\s\<close>), \<^verbatim>\<open>\d\<close>, \<^verbatim>\<open>\w\<close>, \<^verbatim>\<open>str.lower\<close> and the upper case the
  IGNORECASE flag compares with.
\<close>

definition code :: "char \<Rightarrow> int" where
  "code c = of_char c"

definition between :: "int \<Rightarrow> int \<Rightarrow> int \<Rightarrow> bool" where
  "between lo hi n = (lo \<le> n \<and> n \<le> hi)"

definition isspace :: "char \<Rightarrow> bool" where
  "isspace c = (let n = code c in between 9 13 n \<or> between 28 32 n \<or> n = 133 \<or> n = 160)"

definition isdigit :: "char \<Rightarrow> bool" where
  "isdigit c = between 48 57 (code c)"

definition isword :: "char \<Rightarrow> bool" where
  "isword c =
     (let n = code c
      in between 48 57 n \<or> between 65 90 n \<or> n = 95 \<or> between 97 122 n \<or> n = 170
         \<or> between 178 179 n \<or> n = 181 \<or> between 185 186 n \<or> between 188 190 n
         \<or> between 192 214 n \<or> between 216 246 n \<or> between 248 255 n)"

definition lower_chr :: "char \<Rightarrow> char" where
  "lower_chr c =
     (let n = code c
      in if between 65 90 n \<or> between 192 214 n \<or> between 216 222 n then char_of (n + 32) else c)"

definition upper_chr :: "char \<Rightarrow> char" where
  "upper_chr c =
     (let n = code c
      in if between 97 122 n \<or> between 224 246 n \<or> between 248 254 n then char_of (n - 32) else c)"

definition lower :: "string \<Rightarrow> string" where
  \<comment> \<open>\<^verbatim>\<open>s.lower()\<close>\<close>
  "lower s = map lower_chr s"

definition strip :: "string \<Rightarrow> string" where
  \<comment> \<open>\<^verbatim>\<open>s.strip()\<close>\<close>
  "strip s = rev (dropWhile isspace (rev (dropWhile isspace s)))"

definition replace :: "char \<Rightarrow> string \<Rightarrow> string \<Rightarrow> string" where
  \<comment> \<open>\<^verbatim>\<open>s.replace(old, new)\<close> for a one-character \<open>old\<close>\<close>
  "replace old new s = concat (map (\<lambda>c. if c = old then new else [c]) s)"

fun startswith :: "string \<Rightarrow> string \<Rightarrow> bool" where
  \<comment> \<open>\<^verbatim>\<open>s.startswith(p)\<close>\<close>
  "startswith s [] = True"
| "startswith [] (p # ps) = False"
| "startswith (c # cs) (p # ps) = (c = p \<and> startswith cs ps)"

fun contains :: "string \<Rightarrow> string \<Rightarrow> bool" where
  \<comment> \<open>\<^verbatim>\<open>t in s\<close>\<close>
  "contains [] t = (t = [])"
| "contains (c # cs) t = (startswith (c # cs) t \<or> contains cs t)"

fun join :: "string \<Rightarrow> string list \<Rightarrow> string" where
  \<comment> \<open>\<^verbatim>\<open>sep.join(xs)\<close>\<close>
  "join sep [] = []"
| "join sep [x] = x"
| "join sep (x # y # ys) = x @ sep @ join sep (y # ys)"

subsection \<open>Numbers from strings\<close>

datatype error = ValueError | ZeroDivisionError

definition digit_val :: "char \<Rightarrow> nat" where
  "digit_val c = nat (code c - 48)"

definition digits_val :: "string \<Rightarrow> nat" where
  "digits_val s = foldl (\<lambda>n c. 10 * n + digit_val c) 0 s"

definition py_int :: "string \<Rightarrow> error + int" where
  \<comment> \<open>\<^verbatim>\<open>int(s)\<close> for a string of decimal digits; any other string the patterns can
      capture (the empty one) raises ValueError\<close>
  "py_int s = (if s \<noteq> [] \<and> list_all isdigit s then Inr (int (digits_val s)) else Inl ValueError)"

definition py_float :: "string \<Rightarrow> error + real" where
  \<comment> \<open>\<^verbatim>\<open>float(s)\<close> for a string of decimal digits with at most one point, which is what
      is left of a match of \<^verbatim>\<open>[0-9,]+\.?[0-9]*\<close> once its commas are removed: the number when
      there is a digit, ValueError when there is none\<close>
  "py_float s =
     (let whole = takeWhile isdigit s;
          rest = dropWhile isdigit s;
          frac = (case rest of [] \<Rightarrow> Some [] | c # cs \<Rightarrow>
                    if c = CHR ''.'' \<and> list_all isdigit cs then Some cs else None)
      in case frac of
           None \<Rightarrow> Inl ValueError
         | Some ds \<Rightarrow>
             if whole = [] \<and> ds = [] then Inl ValueError
             else Inr (real (digits_val whole) + real (digits_val ds) / 10 ^ length ds))"

subsection \<open>Regular expressions\<close>

text \<open>
  The fragment of Python's \<^verbatim>\<open>re\<close> syntax that the parser's patterns are written in. A
  quantifier stands on a one-character atom everywhere but in \<^verbatim>\<open>(hour|fixed|month)?\<close>, so
  repetition is over atoms and \<open>Opt\<close> is the only quantifier on a group.
\<close>

datatype citem =
    Ch char              \<comment> \<open>a character\<close>
  | Rng char char        \<comment> \<open>\<^verbatim>\<open>a-z\<close>\<close>
  | Space                \<comment> \<open>\<^verbatim>\<open>\s\<close>\<close>
  | Digit                \<comment> \<open>\<^verbatim>\<open>\d\<close>\<close>
  | Word                 \<comment> \<open>\<^verbatim>\<open>\w\<close>\<close>

datatype atom =
    Dot                  \<comment> \<open>\<^verbatim>\<open>.\<close>: any character but a newline\<close>
  | Set "citem list"     \<comment> \<open>\<^verbatim>\<open>[...]\<close>, or a single item\<close>
  | NSet "citem list"    \<comment> \<open>\<^verbatim>\<open>[^...]\<close>\<close>

datatype regex =
    Lit string                      \<comment> \<open>literal text\<close>
  | One atom                        \<comment> \<open>one character of the atom\<close>
  | Rep atom nat "nat option"       \<comment> \<open>greedy \<^verbatim>\<open>{m,n}\<close>; \<open>None\<close> is no upper bound\<close>
  | Seq regex regex                 \<comment> \<open>concatenation\<close>
  | Alt regex regex                 \<comment> \<open>\<^verbatim>\<open>a|b\<close>, the left one tried first\<close>
  | Opt regex                       \<comment> \<open>greedy \<^verbatim>\<open>(...)?\<close>\<close>
  | Grp nat regex                   \<comment> \<open>capturing group number n\<close>
  | Bol                             \<comment> \<open>\<^verbatim>\<open>^\<close>\<close>
  | Eol                             \<comment> \<open>\<^verbatim>\<open>$\<close>\<close>
  | Wordb                           \<comment> \<open>\<^verbatim>\<open>\b\<close>\<close>

fun Cat :: "regex list \<Rightarrow> regex" where
  \<comment> \<open>the concatenation of the list\<close>
  "Cat [] = Lit []"
| "Cat [r] = r"
| "Cat (r # rs) = Seq r (Cat rs)"

fun Or :: "regex list \<Rightarrow> regex" where
  \<comment> \<open>\<^verbatim>\<open>a|b|c\<close>, tried left to right (the empty alternation matches nothing)\<close>
  "Or [] = One (Set [])"
| "Or [r] = r"
| "Or (r # rs) = Alt r (Or rs)"

record flags =
  ignorecase :: bool
  multiline :: bool

definition no_flags :: flags where
  "no_flags = \<lparr>ignorecase = False, multiline = False\<rparr>"

definition IGNORECASE :: flags where
  "IGNORECASE = \<lparr>ignorecase = True, multiline = False\<rparr>"

definition IGNORECASE_MULTILINE :: flags where
  "IGNORECASE_MULTILINE = \<lparr>ignorecase = True, multiline = True\<rparr>"

fun item_has :: "citem \<Rightarrow> char \<Rightarrow> bool" where
  "item_has (Ch a) c = (c = a)"
| "item_has (Rng a b) c = between (code a) (code b) (code c)"
| "item_has Space c = isspace c"
| "item_has Digit c = isdigit c"
| "item_has Word c = isword c"

definition set_has :: "bool \<Rightarrow> citem list \<Rightarrow> char \<Rightarrow> bool" where
  \<comment> \<open>with IGNORECASE a set holds a character when it holds its lower or upper case\<close>
  "set_has ic items c =
     (if ic then list_ex (\<lambda>i. item_has i c \<or> item_has i (lower_chr c) \<or> item_has i (upper_chr c)) items
      else list_ex (\<lambda>i. item_has i c) items)"

fun atom_has :: "bool \<Rightarrow> atom \<Rightarrow> char \<Rightarrow> bool" where
  "atom_has ic Dot c = (c \<noteq> CHR 0x0A)"
| "atom_has ic (Set items) c = set_has ic items c"
| "atom_has ic (NSet items) c = (\<not> set_has ic items c)"

definition chr_eq :: "bool \<Rightarrow> char \<Rightarrow> char \<Rightarrow> bool" where
  "chr_eq ic p c = (if ic then lower_chr p = lower_chr c else p = c)"

fun lit_rest :: "bool \<Rightarrow> string \<Rightarrow> string \<Rightarrow> string option" where
  \<comment> \<open>what is left of the text after the literal, when the text starts with it\<close>
  "lit_rest ic [] s = Some s"
| "lit_rest ic (p # ps) [] = None"
| "lit_rest ic (p # ps) (c # cs) = (if chr_eq ic p c then lit_rest ic ps cs else None)"

text \<open>
  A position in the text: the character before it (\<open>None\<close> at the start), the text from
  it on, and the groups captured so far.
\<close>

type_synonym pos = "char option \<times> string \<times> (nat \<times> string) list"

definition advance :: "nat \<Rightarrow> pos \<Rightarrow> pos" where
  "advance k p =
     (case p of (prev, s, caps) \<Rightarrow>
        (if k = 0 \<or> s = [] then prev else Some (last (take k s)), drop k s, caps))"

fun run_length :: "bool \<Rightarrow> atom \<Rightarrow> string \<Rightarrow> nat" where
  \<comment> \<open>how many characters of the atom the text starts with\<close>
  "run_length ic a [] = 0"
| "run_length ic a (c # cs) = (if atom_has ic a c then Suc (run_length ic a cs) else 0)"

definition at_word_boundary :: "char option \<Rightarrow> string \<Rightarrow> bool" where
  "at_word_boundary prev s =
     ((case prev of None \<Rightarrow> False | Some c \<Rightarrow> isword c)
      \<noteq> (case s of [] \<Rightarrow> False | c # _ \<Rightarrow> isword c))"

definition at_bol :: "flags \<Rightarrow> char option \<Rightarrow> bool" where
  "at_bol fl prev = (prev = None \<or> (multiline fl \<and> prev = Some (CHR 0x0A)))"

definition at_eol :: "flags \<Rightarrow> string \<Rightarrow> bool" where
  "at_eol fl s =
     (s = [] \<or> (if multiline fl then hd s = CHR 0x0A else s = [CHR 0x0A]))"

text \<open>
  \<open>matches fl r p\<close> lists the positions where a match of \<open>r\<close> that starts at \<open>p\<close> can
  end, in the order in which Python's backtracking matcher tries them: the first is the
  match Python reports.
\<close>

fun matches :: "flags \<Rightarrow> regex \<Rightarrow> pos \<Rightarrow> pos list" where
  "matches fl (Lit w) p =
     (case lit_rest (ignorecase fl) w (fst (snd p)) of
        None \<Rightarrow> [] | Some _ \<Rightarrow> [advance (length w) p])"
| "matches fl (One a) p =
     (case fst (snd p) of [] \<Rightarrow> [] | c # _ \<Rightarrow>
        if atom_has (ignorecase fl) a c then [advance 1 p] else [])"
| "matches fl (Rep a m n) p =
     (let k = run_length (ignorecase fl) a (fst (snd p));
          k = (case n of None \<Rightarrow> k | Some b \<Rightarrow> min k b)
      in map (\<lambda>j. advance j p) (rev [m ..< Suc k]))"
| "matches fl (Seq r1 r2) p = concat (map (matches fl r2) (matches fl r1 p))"
| "matches fl (Alt r1 r2) p = matches fl r1 p @ matches fl r2 p"
| "matches fl (Opt r) p = matches fl r p @ [p]"
| "matches fl (Grp n r) p =
     map (\<lambda>q. (fst q, fst (snd q),
                (n, take (length (fst (snd p)) - length (fst (snd q))) (fst (snd p))) # snd (snd q)))
       (matches fl r p)"
| "matches fl Bol p = (if at_bol fl (fst p) then [p] else [])"
| "matches fl Eol p = (if at_eol fl (fst (snd p)) then [p] else [])"
| "matches fl Wordb p = (if at_word_boundary (fst p) (fst (snd p)) then [p] else [])"

text \<open>
  A match object: the text matched (\<^verbatim>\<open>group(0)\<close>) and the captured groups.
\<close>

record rmatch =
  whole :: string
  captures :: "(nat \<times> string) list"

definition match_at :: "flags \<Rightarrow> regex \<Rightarrow> char option \<Rightarrow> string \<Rightarrow> rmatch option" where
  \<comment> \<open>the match that starts at this position, if there is one\<close>
  "match_at fl r prev s =
     (case matches fl r (prev, s, []) of
        [] \<Rightarrow> None
      | q # _ \<Rightarrow> Some \<lparr>whole = take (length s - length (fst (snd q))) s, captures = snd (snd q)\<rparr>)"

definition group :: "rmatch \<Rightarrow> nat \<Rightarrow> string" where
  \<comment> \<open>\<^verbatim>\<open>m.group(n)\<close> of a group that took part in the match, and the empty string that
      \<^verbatim>\<open>findall\<close> reports for one that did not\<close>
  "group m n = (case map_of (captures m) n of None \<Rightarrow> [] | Some g \<Rightarrow> g)"

fun search_from :: "flags \<Rightarrow> regex \<Rightarrow> char option \<Rightarrow> string \<Rightarrow> rmatch option" where
  "search_from fl r prev [] = match_at fl r prev []"
| "search_from fl r prev (c # cs) =
     (case match_at fl r prev (c # cs) of
        Some m \<Rightarrow> Some m
      | None \<Rightarrow> search_from fl r (Some c) cs)"

definition search :: "flags \<Rightarrow> regex \<Rightarrow> string \<Rightarrow> rmatch option" where
  \<comment> \<open>\<^verbatim>\<open>pattern.search(text)\<close>: the leftmost match\<close>
  "search fl r text = search_from fl r None text"

text \<open>
  \<^verbatim>\<open>finditer\<close>: the matches from left to right, none overlapping. \<open>skip\<close> counts the
  characters of the last match that are still to be passed over. After an empty match the
  scan moves on by one character (no pattern of the parser matches the empty string).
\<close>

fun finditer_from :: "flags \<Rightarrow> regex \<Rightarrow> char option \<Rightarrow> string \<Rightarrow> nat \<Rightarrow> rmatch list" where
  "finditer_from fl r prev [] skip =
     (if skip = 0 then (case match_at fl r prev [] of None \<Rightarrow> [] | Some m \<Rightarrow> [m]) else [])"
| "finditer_from fl r prev (c # cs) skip =
     (if skip = 0 then
        (case match_at fl r prev (c # cs) of
           None \<Rightarrow> finditer_from fl r (Some c) cs 0
         | Some m \<Rightarrow> m # finditer_from fl r (Some c) cs (length (whole m) - 1))
      else finditer_from fl r (Some c) cs (skip - 1))"

definition finditer :: "flags \<Rightarrow> regex \<Rightarrow> string \<Rightarrow> rmatch list" where
  "finditer fl r text = finditer_from fl r None text 0"

text \<open>
  \<^verbatim>\<open>findall\<close> gives, for each match, the whole match when the pattern has no group, the
  group when it has one, and the tuple of the groups when it has several.
\<close>

definition findall0 :: "flags \<Rightarrow> regex \<Rightarrow> string \<Rightarrow> string list" where
  "findall0 fl r text = map whole (finditer fl r text)"

definition findall1 :: "flags \<Rightarrow> regex \<Rightarrow> string \<Rightarrow> string list" where
  "findall1 fl r text = map (\<lambda>m. group m 1) (finditer fl r text)"

definition findall2 :: "flags \<Rightarrow> regex \<Rightarrow> string \<Rightarrow> (string \<times> string) list" where
  "findall2 fl r text = map (\<lambda>m. (group m 1, group m 2)) (finditer fl r text)"

definition findall3 :: "flags \<Rightarrow> regex \<Rightarrow> string \<Rightarrow> (string \<times> string \<times> string) list" where
  "findall3 fl r text = map (\<lambda>m. (group m 1, group m 2, group m 3)) (finditer fl r text)"

text \<open>\<^verbatim>\<open>re.sub(pattern, repl, text)\<close> with a replacement that has no group reference.\<close>

fun sub_from :: "flags \<Rightarrow> regex \<Rightarrow> string \<Rightarrow> char option \<Rightarrow> string \<Rightarrow> nat \<Rightarrow> string" where
  "sub_from fl r repl prev [] skip =
     (if skip = 0 then (case match_at fl r prev [] of None \<Rightarrow> [] | Some m \<Rightarrow> repl) else [])"
| "sub_from fl r repl prev (c # cs) skip =
     (if skip = 0 then
        (case match_at fl r prev (c # cs) of
           None \<Rightarrow> c # sub_from fl r repl (Some c) cs 0
         | Some m \<Rightarrow>
             if whole m = [] then repl @ c # sub_from fl r repl (Some c) cs 0
             else repl @ sub_from fl r repl (Some c) cs (length (whole m) - 1))
      else sub_from fl r repl (Some c) cs (skip - 1))"

definition re_sub :: "flags \<Rightarrow> regex \<Rightarrow> string \<Rightarrow> string \<Rightarrow> string" where
  "re_sub fl r repl text = sub_from fl r repl None text 0"

section \<open>The parser (pdf_parser.py)\<close>

subsection \<open>The patterns\<close>

text \<open>
  Each regular expression of the parser, written as a \<open>regex\<close> term; the comment gives the
  source's text. A pattern the source compiles inline is named after the variable that
  receives it or its matches. The entries of \<^verbatim>\<open>self.patterns\<close> that are never matched
  (\<^verbatim>\<open>phone\<close>, \<^verbatim>\<open>address\<close>, \<^verbatim>\<open>tax_id\<close>, \<^verbatim>\<open>contract_number\<close>) and those whose matches are
  computed and never read (\<^verbatim>\<open>monthly_amount\<close>, \<^verbatim>\<open>annual_amount\<close>, \<^verbatim>\<open>hourly_rate\<close>,
  \<^verbatim>\<open>fixed_fee\<close>, \<^verbatim>\<open>response_time\<close>) are left out: \<^verbatim>\<open>findall\<close> has no effect and does not fail.
  \<open>legal_suffix\<close> is the alternation \<^verbatim>\<open>(?:LLC|Inc|Corp|Corporation|Ltd|Limited|Company|Co\.|Partners)\<close>,
  which nine patterns end with, and \<open>A_Z\<close>, \<open>a_z\<close>, \<open>d0_9\<close> are the ranges \<^verbatim>\<open>A-Z\<close>, \<^verbatim>\<open>a-z\<close>,
  \<^verbatim>\<open>0-9\<close>.
\<close>

definition A_Z :: citem where
  "A_Z = Rng CHR ''A'' CHR ''Z''"

definition a_z :: citem where
  "a_z = Rng CHR ''a'' CHR ''z''"

definition d0_9 :: citem where
  "d0_9 = Rng CHR ''0'' CHR ''9''"

definition legal_suffix :: regex where
  "legal_suffix =
     Or [Lit ''LLC'', Lit ''Inc'', Lit ''Corp'', Lit ''Corporation'', Lit ''Ltd'', Lit ''Limited'',
       Lit ''Company'', Lit ''Co.'', Lit ''Partners'']"



text \<open>
  The entries of \<^verbatim>\<open>self.patterns\<close> whose matches the extractors read (all compiled with
  IGNORECASE).
\<close>

definition p_company_name :: regex where
  \<comment> \<open>\<^verbatim>\<open>([A-Za-z\s&]+(?:LLC|Inc|Corp|Corporation|Ltd|Limited|Company|Co\.|Partners))\<close> (IGNORECASE)\<close>
  "p_company_name =
     Grp 1 (Cat [Rep (Set [A_Z, a_z, Space, Ch CHR ''&'']) 1 None, legal_suffix])"

definition p_consultant_company :: regex where
  \<comment> \<open>\<^verbatim>\<open>(?:\*\*Consultant:\*\*|Consultant:)\s*\n?([A-Za-z\s&]+(?:LLC|Inc|Corp|Corporation|Ltd|Limited|Company|Co\.|Partners))\<close> (IGNORECASE)\<close>
  "p_consultant_company =
     Cat [Or [Lit ''**Consultant:**'', Lit ''Consultant:''], Rep (Set [Space]) 0 None,
       Rep (Set [Ch (CHR 0x0A)]) 0 (Some 1), Grp 1 (Cat [Rep (Set [A_Z, a_z, Space,
       Ch CHR ''&'']) 1 None, legal_suffix])]"

definition p_client_company :: regex where
  \<comment> \<open>\<^verbatim>\<open>(?:\*\*Client:\*\*|Client:)\s*\n?([A-Za-z\s&]+(?:LLC|Inc|Corp|Corporation|Ltd|Limited|Company|Co\.|Partners))\<close> (IGNORECASE)\<close>
  "p_client_company =
     Cat [Or [Lit ''**Client:**'', Lit ''Client:''], Rep (Set [Space]) 0 None,
       Rep (Set [Ch (CHR 0x0A)]) 0 (Some 1), Grp 1 (Cat [Rep (Set [A_Z, a_z, Space,
       Ch CHR ''&'']) 1 None, legal_suffix])]"

definition p_service_provider :: regex where
  \<comment> \<open>\<^verbatim>\<open>(?:\*\*Service Provider:\*\*|Service Provider:)\s*\n?([A-Za-z\s&]+(?:LLC|Inc|Corp|Corporation|Ltd|Limited|Company|Co\.|Partners))\<close> (IGNORECASE)\<close>
  "p_service_provider =
     Cat [Or [Lit ''**Service Provider:**'', Lit ''Service Provider:''],
       Rep (Set [Space]) 0 None, Rep (Set [Ch (CHR 0x0A)]) 0 (Some 1),
       Grp 1 (Cat [Rep (Set [A_Z, a_z, Space, Ch CHR ''&'']) 1 None, legal_suffix])]"

definition p_email :: regex where
  \<comment> \<open>\<^verbatim>\<open>Email:\s*([A-Za-z0-9._%+-]+@[A-Za-z0-9.-]+\.[A-Z|a-z]{2,})\<close> (IGNORECASE)\<close>
  "p_email =
     Cat [Lit ''Email:'', Rep (Set [Space]) 0 None, Grp 1 (Cat [Rep (Set [A_Z, a_z, d0_9,
       Ch CHR ''.'', Ch CHR ''_'', Ch CHR ''%'', Ch CHR ''+'', Ch CHR ''-'']) 1 None,
       Lit ''@'', Rep (Set [A_Z, a_z, d0_9, Ch CHR ''.'', Ch CHR ''-'']) 1 None, Lit ''.'',
       Rep (Set [A_Z, Ch CHR ''|'', a_z]) 2 None])]"

definition p_currency_amount :: regex where
  \<comment> \<open>\<^verbatim>\<open>\$([0-9,]+\.?[0-9]*)\<close> (IGNORECASE)\<close>
  "p_currency_amount =
     Cat [Lit ''$'', Grp 1 (Cat [Rep (Set [d0_9, Ch CHR '','']) 1 None,
       Rep (Set [Ch CHR ''.'']) 0 (Some 1), Rep (Set [d0_9]) 0 None])]"

definition p_payment_terms :: regex where
  \<comment> \<open>\<^verbatim>\<open>Net\s+(\d+)\s+days?\<close> (IGNORECASE)\<close>
  "p_payment_terms =
     Cat [Lit ''Net'', Rep (Set [Space]) 1 None, Grp 1 (Rep (Set [Digit]) 1 None),
       Rep (Set [Space]) 1 None, Lit ''day'', Rep (Set [Ch CHR ''s'']) 0 (Some 1)]"

definition p_contract_term :: regex where
  \<comment> \<open>\<^verbatim>\<open>(?:Term|Duration|Contract Period):\s*(\d+)\s*months?\<close> (IGNORECASE)\<close>
  "p_contract_term =
     Cat [Or [Lit ''Term'', Lit ''Duration'', Lit ''Contract Period''], Lit '':'',
       Rep (Set [Space]) 0 None, Grp 1 (Rep (Set [Digit]) 1 None), Rep (Set [Space]) 0 None,
       Lit ''month'', Rep (Set [Ch CHR ''s'']) 0 (Some 1)]"

definition p_auto_renewal :: regex where
  \<comment> \<open>\<^verbatim>\<open>(?:Automatic|Auto[- ]?renewal):\s*(\d+)[- ]?month\<close> (IGNORECASE)\<close>
  "p_auto_renewal =
     Cat [Or [Lit ''Automatic'', Cat [Lit ''Auto'', Rep (Set [Ch CHR ''-'',
       Ch CHR '' '']) 0 (Some 1), Lit ''renewal'']], Lit '':'', Rep (Set [Space]) 0 None,
       Grp 1 (Rep (Set [Digit]) 1 None), Rep (Set [Ch CHR ''-'', Ch CHR '' '']) 0 (Some 1),
       Lit ''month'']"

definition p_uptime :: regex where
  \<comment> \<open>\<^verbatim>\<open>(\d+\.?\d*%)\s*(?:uptime|availability)\<close> (IGNORECASE)\<close>
  "p_uptime =
     Cat [Grp 1 (Cat [Rep (Set [Digit]) 1 None, Rep (Set [Ch CHR ''.'']) 0 (Some 1),
       Rep (Set [Digit]) 0 None, Lit ''%'']), Rep (Set [Space]) 0 None, Or [Lit ''uptime'',
       Lit ''availability'']]"

definition p_account_number :: regex where
  \<comment> \<open>\<^verbatim>\<open>(?:Account ID|Client Account|Agreement ID):\s*([A-Z0-9-]+)\<close> (IGNORECASE)\<close>
  "p_account_number =
     Cat [Or [Lit ''Account ID'', Lit ''Client Account'', Lit ''Agreement ID''], Lit '':'',
       Rep (Set [Space]) 0 None, Grp 1 (Rep (Set [A_Z, d0_9, Ch CHR ''-'']) 1 None)]"

definition p_payment_method :: regex where
  \<comment> \<open>\<^verbatim>\<open>(?:Payment Method|Payment Options?):\s*([^.\n]+)\<close> (IGNORECASE)\<close>
  "p_payment_method =
     Cat [Or [Lit ''Payment Method'', Cat [Lit ''Payment Option'',
       Rep (Set [Ch CHR ''s'']) 0 (Some 1)]], Lit '':'', Rep (Set [Space]) 0 None,
       Grp 1 (Rep (NSet [Ch CHR ''.'', Ch (CHR 0x0A)]) 1 None)]"

text \<open>
  The patterns of \<^verbatim>\<open>_extract_parties\<close>.
\<close>

definition emails_re :: regex where
  \<comment> \<open>\<^verbatim>\<open>\b[A-Za-z0-9._%+-]+@[A-Za-z0-9.-]+\.[A-Z|a-z]{2,}\b\<close> (no flag)\<close>
  "emails_re =
     Cat [Wordb, Rep (Set [A_Z, a_z, d0_9, Ch CHR ''.'', Ch CHR ''_'', Ch CHR ''%'',
       Ch CHR ''+'', Ch CHR ''-'']) 1 None, Lit ''@'', Rep (Set [A_Z, a_z, d0_9, Ch CHR ''.'',
       Ch CHR ''-'']) 1 None, Lit ''.'', Rep (Set [A_Z, Ch CHR ''|'', a_z]) 2 None, Wordb]"

definition phones_re :: regex where
  \<comment> \<open>\<^verbatim>\<open>\(?\d{3}\)?[-.\s]?\d{3}[-.\s]?\d{4}\<close> (no flag)\<close>
  "phones_re =
     Cat [Rep (Set [Ch CHR ''('']) 0 (Some 1), Rep (Set [Digit]) 3 (Some 3),
       Rep (Set [Ch CHR '')'']) 0 (Some 1), Rep (Set [Ch CHR ''-'', Ch CHR ''.'',
       Space]) 0 (Some 1), Rep (Set [Digit]) 3 (Some 3), Rep (Set [Ch CHR ''-'', Ch CHR ''.'',
       Space]) 0 (Some 1), Rep (Set [Digit]) 4 (Some 4)]"

definition addresses_re :: regex where
  \<comment> \<open>\<^verbatim>\<open>\d+\s+[A-Za-z0-9\s,.-]+(?:Street|St|Avenue|Ave|Road|Rd|Drive|Dr|Lane|Ln|Boulevard|Blvd|Way|Place|Pl)[\s,]*[A-Za-z\s,]*\d{5}\<close> (IGNORECASE)\<close>
  "addresses_re =
     Cat [Rep (Set [Digit]) 1 None, Rep (Set [Space]) 1 None, Rep (Set [A_Z, a_z, d0_9, Space,
       Ch CHR '','', Ch CHR ''.'', Ch CHR ''-'']) 1 None, Or [Lit ''Street'', Lit ''St'',
       Lit ''Avenue'', Lit ''Ave'', Lit ''Road'', Lit ''Rd'', Lit ''Drive'', Lit ''Dr'',
       Lit ''Lane'', Lit ''Ln'', Lit ''Boulevard'', Lit ''Blvd'', Lit ''Way'', Lit ''Place'',
       Lit ''Pl''], Rep (Set [Space, Ch CHR '','']) 0 None, Rep (Set [A_Z, a_z, Space,
       Ch CHR '','']) 0 None, Rep (Set [Digit]) 5 (Some 5)]"

definition tax_ids_re :: regex where
  \<comment> \<open>\<^verbatim>\<open>(?:Tax ID|EIN|Federal EIN):\s*(\d{2}-\d{7})\<close> (IGNORECASE)\<close>
  "tax_ids_re =
     Cat [Or [Lit ''Tax ID'', Lit ''EIN'', Lit ''Federal EIN''], Lit '':'',
       Rep (Set [Space]) 0 None, Grp 1 (Cat [Rep (Set [Digit]) 2 (Some 2), Lit ''-'',
       Rep (Set [Digit]) 7 (Some 7)])]"

definition broad_company_pattern :: regex where
  \<comment> \<open>\<^verbatim>\<open>(?:^|\n|\.\s+)([A-Z][A-Za-z\s&,.-]{3,35}(?:LLC|Inc|Corp|Corporation|Ltd|Limited|Company|Co\.|Partners))(?:\s|$|\n|\.)\<close> (IGNORECASE | MULTILINE)\<close>
  "broad_company_pattern =
     Cat [Or [Bol, Lit [CHR 0x0A], Cat [Lit ''.'', Rep (Set [Space]) 1 None]],
       Grp 1 (Cat [One (Set [A_Z]), Rep (Set [A_Z, a_z, Space, Ch CHR ''&'', Ch CHR '','',
       Ch CHR ''.'', Ch CHR ''-'']) 3 (Some 35), legal_suffix]), Or [One (Set [Space]), Eol,
       Lit [CHR 0x0A], Lit ''.'']]"

definition spaces_re :: regex where
  \<comment> \<open>\<^verbatim>\<open>\s+\<close> (no flag)\<close>
  "spaces_re =
     Rep (Set [Space]) 1 None"

definition name_prefix_re :: regex where
  \<comment> \<open>\<^verbatim>\<open>^(?:Service Provider|liability|limited to|between|with|and)\s+\<close> (IGNORECASE)\<close>
  "name_prefix_re =
     Cat [Bol, Or [Lit ''Service Provider'', Lit ''liability'', Lit ''limited to'',
       Lit ''between'', Lit ''with'', Lit ''and''], Rep (Set [Space]) 1 None]"

definition name_suffix_re :: regex where
  \<comment> \<open>\<^verbatim>\<open>\s+(?:liability|limited to|shall|will|may).*$\<close> (IGNORECASE)\<close>
  "name_suffix_re =
     Cat [Rep (Set [Space]) 1 None, Or [Lit ''liability'', Lit ''limited to'', Lit ''shall'',
       Lit ''will'', Lit ''may''], Rep Dot 0 None, Eol]"

definition customer_pattern_1 :: regex where
  \<comment> \<open>\<^verbatim>\<open>(?:Client|Customer|Purchaser):\s*([A-Z][A-Za-z\s&,.-]{3,35}(?:LLC|Inc|Corp|Corporation|Ltd|Limited|Company|Co\.|Partners))\<close> (IGNORECASE)\<close>
  "customer_pattern_1 =
     Cat [Or [Lit ''Client'', Lit ''Customer'', Lit ''Purchaser''], Lit '':'',
       Rep (Set [Space]) 0 None, Grp 1 (Cat [One (Set [A_Z]), Rep (Set [A_Z, a_z, Space,
       Ch CHR ''&'', Ch CHR '','', Ch CHR ''.'', Ch CHR ''-'']) 3 (Some 35), legal_suffix])]"

definition customer_pattern_2 :: regex where
  \<comment> \<open>\<^verbatim>\<open>(?:Agreement between|Contract between)\s+[^,]+,\s*and\s+([A-Z][A-Za-z\s&,.-]{3,35}(?:LLC|Inc|Corp|Corporation|Ltd|Limited|Company|Co\.|Partners))\<close> (IGNORECASE)\<close>
  "customer_pattern_2 =
     Cat [Or [Lit ''Agreement between'', Lit ''Contract between''], Rep (Set [Space]) 1 None,
       Rep (NSet [Ch CHR '','']) 1 None, Lit '','', Rep (Set [Space]) 0 None, Lit ''and'',
       Rep (Set [Space]) 1 None, Grp 1 (Cat [One (Set [A_Z]), Rep (Set [A_Z, a_z, Space,
       Ch CHR ''&'', Ch CHR '','', Ch CHR ''.'', Ch CHR ''-'']) 3 (Some 35), legal_suffix])]"

definition customer_pattern_3 :: regex where
  \<comment> \<open>\<^verbatim>\<open>(?:with|for)\s+([A-Z][A-Za-z\s&,.-]{3,35}(?:LLC|Inc|Corp|Corporation|Ltd|Limited|Company|Co\.|Partners))(?:\s|$|\n|\.)\<close> (IGNORECASE)\<close>
  "customer_pattern_3 =
     Cat [Or [Lit ''with'', Lit ''for''], Rep (Set [Space]) 1 None,
       Grp 1 (Cat [One (Set [A_Z]), Rep (Set [A_Z, a_z, Space, Ch CHR ''&'', Ch CHR '','',
       Ch CHR ''.'', Ch CHR ''-'']) 3 (Some 35), legal_suffix]), Or [One (Set [Space]), Eol,
       Lit [CHR 0x0A], Lit ''.'']]"

text \<open>
  The patterns of \<^verbatim>\<open>_extract_financial_details\<close>.
\<close>

definition service_rate_pattern :: regex where
  \<comment> \<open>\<^verbatim>\<open>([A-Za-z\s]+(?:Consulting|Assessment|Training|Support|Service|Management))[\s\-:]*\$([0-9,]+\.?[0-9]*)/?(hour|fixed|month)?\<close> (IGNORECASE)\<close>
  "service_rate_pattern =
     Cat [Grp 1 (Cat [Rep (Set [A_Z, a_z, Space]) 1 None, Or [Lit ''Consulting'',
       Lit ''Assessment'', Lit ''Training'', Lit ''Support'', Lit ''Service'',
       Lit ''Management'']]), Rep (Set [Space, Ch CHR ''-'', Ch CHR '':'']) 0 None, Lit ''$'',
       Grp 2 (Cat [Rep (Set [d0_9, Ch CHR '','']) 1 None, Rep (Set [Ch CHR ''.'']) 0 (Some 1),
       Rep (Set [d0_9]) 0 None]), Rep (Set [Ch CHR ''/'']) 0 (Some 1),
       Opt (Grp 3 (Or [Lit ''hour'', Lit ''fixed'', Lit ''month'']))]"

definition hourly_pattern :: regex where
  \<comment> \<open>\<^verbatim>\<open>([A-Za-z\s]+):\s*([0-9]+)\s*hours?\s*\(\$([0-9,]+\.?[0-9]*)\)\<close> (IGNORECASE)\<close>
  "hourly_pattern =
     Cat [Grp 1 (Rep (Set [A_Z, a_z, Space]) 1 None), Lit '':'', Rep (Set [Space]) 0 None,
       Grp 2 (Rep (Set [d0_9]) 1 None), Rep (Set [Space]) 0 None, Lit ''hour'',
       Rep (Set [Ch CHR ''s'']) 0 (Some 1), Rep (Set [Space]) 0 None, Lit ''($'',
       Grp 3 (Cat [Rep (Set [d0_9, Ch CHR '','']) 1 None, Rep (Set [Ch CHR ''.'']) 0 (Some 1),
       Rep (Set [d0_9]) 0 None]), Lit '')'']"

definition monthly_pattern :: regex where
  \<comment> \<open>\<^verbatim>\<open>(?:Monthly|Per Month)[\s\w]*Total[\s:]*\$([0-9,]+\.?[0-9]*)\<close> (IGNORECASE)\<close>
  "monthly_pattern =
     Cat [Or [Lit ''Monthly'', Lit ''Per Month''], Rep (Set [Space, Word]) 0 None,
       Lit ''Total'', Rep (Set [Space, Ch CHR '':'']) 0 None, Lit ''$'',
       Grp 1 (Cat [Rep (Set [d0_9, Ch CHR '','']) 1 None, Rep (Set [Ch CHR ''.'']) 0 (Some 1),
       Rep (Set [d0_9]) 0 None])]"

definition setup_pattern :: regex where
  \<comment> \<open>\<^verbatim>\<open>(?:Setup|Initial|Project)[\s\w]*Fee[\s:]*\$([0-9,]+\.?[0-9]*)\<close> (IGNORECASE)\<close>
  "setup_pattern =
     Cat [Or [Lit ''Setup'', Lit ''Initial'', Lit ''Project''], Rep (Set [Space, Word]) 0 None,
       Lit ''Fee'', Rep (Set [Space, Ch CHR '':'']) 0 None, Lit ''$'',
       Grp 1 (Cat [Rep (Set [d0_9, Ch CHR '','']) 1 None, Rep (Set [Ch CHR ''.'']) 0 (Some 1),
       Rep (Set [d0_9]) 0 None])]"

definition annual_pattern :: regex where
  \<comment> \<open>\<^verbatim>\<open>(?:Annual|Yearly)[\s\w]*(?:Value|Total|Amount)[\s:]*\$([0-9,]+\.?[0-9]*)\<close> (IGNORECASE)\<close>
  "annual_pattern =
     Cat [Or [Lit ''Annual'', Lit ''Yearly''], Rep (Set [Space, Word]) 0 None,
       Or [Lit ''Value'', Lit ''Total'', Lit ''Amount''], Rep (Set [Space,
       Ch CHR '':'']) 0 None, Lit ''$'', Grp 1 (Cat [Rep (Set [d0_9, Ch CHR '','']) 1 None,
       Rep (Set [Ch CHR ''.'']) 0 (Some 1), Rep (Set [d0_9]) 0 None])]"

text \<open>
  The patterns of \<^verbatim>\<open>_extract_payment_structure\<close>.
\<close>

definition alt_terms_pattern :: regex where
  \<comment> \<open>\<^verbatim>\<open>(?:payment|due)[\s\w]*(\d+)[\s]*(?:days?|months?)\<close> (IGNORECASE)\<close>
  "alt_terms_pattern =
     Cat [Or [Lit ''payment'', Lit ''due''], Rep (Set [Space, Word]) 0 None,
       Grp 1 (Rep (Set [Digit]) 1 None), Rep (Set [Space]) 0 None, Or [Cat [Lit ''day'',
       Rep (Set [Ch CHR ''s'']) 0 (Some 1)], Cat [Lit ''month'',
       Rep (Set [Ch CHR ''s'']) 0 (Some 1)]]]"

definition schedule_pattern :: regex where
  \<comment> \<open>\<^verbatim>\<open>(?:billed|invoiced|charged)[\s\w]*(?:monthly|quarterly|annually|yearly)\<close> (IGNORECASE)\<close>
  "schedule_pattern =
     Cat [Or [Lit ''billed'', Lit ''invoiced'', Lit ''charged''], Rep (Set [Space,
       Word]) 0 None, Or [Lit ''monthly'', Lit ''quarterly'', Lit ''annually'',
       Lit ''yearly'']]"

definition monthly_re :: regex where
  \<comment> \<open>\<^verbatim>\<open>monthly|per month\<close> (IGNORECASE)\<close>
  "monthly_re =
     Or [Lit ''monthly'', Lit ''per month'']"

definition quarterly_re :: regex where
  \<comment> \<open>\<^verbatim>\<open>quarterly|per quarter\<close> (IGNORECASE)\<close>
  "quarterly_re =
     Or [Lit ''quarterly'', Lit ''per quarter'']"

definition annually_re :: regex where
  \<comment> \<open>\<^verbatim>\<open>annually|yearly|per year\<close> (IGNORECASE)\<close>
  "annually_re =
     Or [Lit ''annually'', Lit ''yearly'', Lit ''per year'']"

definition late_fee_pattern :: regex where
  \<comment> \<open>\<^verbatim>\<open>(?:late fee|penalty|interest)[\s\w]*([0-9.]+%)\<close> (IGNORECASE)\<close>
  "late_fee_pattern =
     Cat [Or [Lit ''late fee'', Lit ''penalty'', Lit ''interest''], Rep (Set [Space,
       Word]) 0 None, Grp 1 (Cat [Rep (Set [d0_9, Ch CHR ''.'']) 1 None, Lit ''%''])]"

definition discount_pattern :: regex where
  \<comment> \<open>\<^verbatim>\<open>(?:discount|early payment)[\s\w]*([0-9.]+%)\<close> (IGNORECASE)\<close>
  "discount_pattern =
     Cat [Or [Lit ''discount'', Lit ''early payment''], Rep (Set [Space, Word]) 0 None,
       Grp 1 (Cat [Rep (Set [d0_9, Ch CHR ''.'']) 1 None, Lit ''%''])]"

definition bank_name_pattern :: regex where
  \<comment> \<open>\<^verbatim>\<open>(?:bank|financial institution)[\s:]*([A-Za-z\s&]+)\<close> (IGNORECASE)\<close>
  "bank_name_pattern =
     Cat [Or [Lit ''bank'', Lit ''financial institution''], Rep (Set [Space,
       Ch CHR '':'']) 0 None, Grp 1 (Rep (Set [A_Z, a_z, Space, Ch CHR ''&'']) 1 None)]"

definition account_pattern :: regex where
  \<comment> \<open>\<^verbatim>\<open>(?:account|acct)[\s#:]*([A-Za-z0-9-]+)\<close> (IGNORECASE)\<close>
  "account_pattern =
     Cat [Or [Lit ''account'', Lit ''acct''], Rep (Set [Space, Ch CHR ''#'',
       Ch CHR '':'']) 0 None, Grp 1 (Rep (Set [A_Z, a_z, d0_9, Ch CHR ''-'']) 1 None)]"

definition routing_pattern :: regex where
  \<comment> \<open>\<^verbatim>\<open>(?:routing|aba)[\s#:]*([0-9]{9})\<close> (IGNORECASE)\<close>
  "routing_pattern =
     Cat [Or [Lit ''routing'', Lit ''aba''], Rep (Set [Space, Ch CHR ''#'',
       Ch CHR '':'']) 0 None, Grp 1 (Rep (Set [d0_9]) 9 (Some 9))]"

definition swift_pattern :: regex where
  \<comment> \<open>\<^verbatim>\<open>(?:swift|bic)[\s:]*([A-Z0-9]{8,11})\<close> (IGNORECASE)\<close>
  "swift_pattern =
     Cat [Or [Lit ''swift'', Lit ''bic''], Rep (Set [Space, Ch CHR '':'']) 0 None,
       Grp 1 (Rep (Set [A_Z, d0_9]) 8 (Some 11))]"

text \<open>
  The patterns of \<^verbatim>\<open>_extract_account_info\<close>.
\<close>

definition phone_pattern :: regex where
  \<comment> \<open>\<^verbatim>\<open>(?:billing|accounting|finance)[\s\w]*(?:phone|tel)[\s:]*(\+?1?[-.\s]?\(?[0-9]{3}\)?[-.\s]?[0-9]{3}[-.\s]?[0-9]{4})\<close> (IGNORECASE)\<close>
  "phone_pattern =
     Cat [Or [Lit ''billing'', Lit ''accounting'', Lit ''finance''], Rep (Set [Space,
       Word]) 0 None, Or [Lit ''phone'', Lit ''tel''], Rep (Set [Space, Ch CHR '':'']) 0 None,
       Grp 1 (Cat [Rep (Set [Ch CHR ''+'']) 0 (Some 1), Rep (Set [Ch CHR ''1'']) 0 (Some 1),
       Rep (Set [Ch CHR ''-'', Ch CHR ''.'', Space]) 0 (Some 1),
       Rep (Set [Ch CHR ''('']) 0 (Some 1), Rep (Set [d0_9]) 3 (Some 3),
       Rep (Set [Ch CHR '')'']) 0 (Some 1), Rep (Set [Ch CHR ''-'', Ch CHR ''.'',
       Space]) 0 (Some 1), Rep (Set [d0_9]) 3 (Some 3), Rep (Set [Ch CHR ''-'', Ch CHR ''.'',
       Space]) 0 (Some 1), Rep (Set [d0_9]) 4 (Some 4)])]"

definition contact_pattern :: regex where
  \<comment> \<open>\<^verbatim>\<open>(?:billing contact|accounts receivable|finance contact)[\s:]*([A-Za-z\s]+)\<close> (IGNORECASE)\<close>
  "contact_pattern =
     Cat [Or [Lit ''billing contact'', Lit ''accounts receivable'', Lit ''finance contact''],
       Rep (Set [Space, Ch CHR '':'']) 0 None, Grp 1 (Rep (Set [A_Z, a_z, Space]) 1 None)]"

text \<open>
  The patterns of \<^verbatim>\<open>_extract_revenue_classification\<close>.
\<close>

definition recurring_re :: regex where
  \<comment> \<open>\<^verbatim>\<open>recurring|subscription|monthly|quarterly|annual\<close> (IGNORECASE)\<close>
  "recurring_re =
     Or [Lit ''recurring'', Lit ''subscription'', Lit ''monthly'', Lit ''quarterly'',
       Lit ''annual'']"

definition one_time_re :: regex where
  \<comment> \<open>\<^verbatim>\<open>one.?time|single payment|lump sum\<close> (IGNORECASE)\<close>
  "one_time_re =
     Or [Cat [Lit ''one'', Rep Dot 0 (Some 1), Lit ''time''], Lit ''single payment'',
       Lit ''lump sum'']"

definition termination_pattern :: regex where
  \<comment> \<open>\<^verbatim>\<open>(?:termination|cancellation)[\s\w]*([0-9]+)[\s]*(?:days?|months?)\<close> (IGNORECASE)\<close>
  "termination_pattern =
     Cat [Or [Lit ''termination'', Lit ''cancellation''], Rep (Set [Space, Word]) 0 None,
       Grp 1 (Rep (Set [d0_9]) 1 None), Rep (Set [Space]) 0 None, Or [Cat [Lit ''day'',
       Rep (Set [Ch CHR ''s'']) 0 (Some 1)], Cat [Lit ''month'',
       Rep (Set [Ch CHR ''s'']) 0 (Some 1)]]]"

definition pricing_pattern :: regex where
  \<comment> \<open>\<^verbatim>\<open>(?:price increase|adjustment)[\s\w]*([0-9.]+%)\<close> (IGNORECASE)\<close>
  "pricing_pattern =
     Cat [Or [Lit ''price increase'', Lit ''adjustment''], Rep (Set [Space, Word]) 0 None,
       Grp 1 (Cat [Rep (Set [d0_9, Ch CHR ''.'']) 1 None, Lit ''%''])]"

text \<open>
  The patterns of \<^verbatim>\<open>_extract_sla_terms\<close>.
\<close>

definition critical_pattern :: regex where
  \<comment> \<open>\<^verbatim>\<open>(?:critical|emergency)[\s\w]*([0-9]+)[\s]*(?:hours?|minutes?)\<close> (IGNORECASE)\<close>
  "critical_pattern =
     Cat [Or [Lit ''critical'', Lit ''emergency''], Rep (Set [Space, Word]) 0 None,
       Grp 1 (Rep (Set [d0_9]) 1 None), Rep (Set [Space]) 0 None, Or [Cat [Lit ''hour'',
       Rep (Set [Ch CHR ''s'']) 0 (Some 1)], Cat [Lit ''minute'',
       Rep (Set [Ch CHR ''s'']) 0 (Some 1)]]]"

definition high_pattern :: regex where
  \<comment> \<open>\<^verbatim>\<open>(?:high priority|urgent)[\s\w]*([0-9]+)[\s]*(?:hours?|minutes?)\<close> (IGNORECASE)\<close>
  "high_pattern =
     Cat [Or [Lit ''high priority'', Lit ''urgent''], Rep (Set [Space, Word]) 0 None,
       Grp 1 (Rep (Set [d0_9]) 1 None), Rep (Set [Space]) 0 None, Or [Cat [Lit ''hour'',
       Rep (Set [Ch CHR ''s'']) 0 (Some 1)], Cat [Lit ''minute'',
       Rep (Set [Ch CHR ''s'']) 0 (Some 1)]]]"

definition medium_pattern :: regex where
  \<comment> \<open>\<^verbatim>\<open>(?:medium|normal)[\s\w]*([0-9]+)[\s]*(?:hours?|minutes?)\<close> (IGNORECASE)\<close>
  "medium_pattern =
     Cat [Or [Lit ''medium'', Lit ''normal''], Rep (Set [Space, Word]) 0 None,
       Grp 1 (Rep (Set [d0_9]) 1 None), Rep (Set [Space]) 0 None, Or [Cat [Lit ''hour'',
       Rep (Set [Ch CHR ''s'']) 0 (Some 1)], Cat [Lit ''minute'',
       Rep (Set [Ch CHR ''s'']) 0 (Some 1)]]]"

definition low_pattern :: regex where
  \<comment> \<open>\<^verbatim>\<open>(?:low priority|routine)[\s\w]*([0-9]+)[\s]*(?:hours?|days?)\<close> (IGNORECASE)\<close>
  "low_pattern =
     Cat [Or [Lit ''low priority'', Lit ''routine''], Rep (Set [Space, Word]) 0 None,
       Grp 1 (Rep (Set [d0_9]) 1 None), Rep (Set [Space]) 0 None, Or [Cat [Lit ''hour'',
       Rep (Set [Ch CHR ''s'']) 0 (Some 1)], Cat [Lit ''day'',
       Rep (Set [Ch CHR ''s'']) 0 (Some 1)]]]"

definition response_time_pattern :: regex where
  \<comment> \<open>\<^verbatim>\<open>(?:system response|response time)[\s\w]*([0-9.]+)[\s]*(?:seconds?|ms)\<close> (IGNORECASE)\<close>
  "response_time_pattern =
     Cat [Or [Lit ''system response'', Lit ''response time''], Rep (Set [Space, Word]) 0 None,
       Grp 1 (Rep (Set [d0_9, Ch CHR ''.'']) 1 None), Rep (Set [Space]) 0 None,
       Or [Cat [Lit ''second'', Rep (Set [Ch CHR ''s'']) 0 (Some 1)], Lit ''ms'']]"

definition backup_pattern :: regex where
  \<comment> \<open>\<^verbatim>\<open>(?:backup success|backup rate)[\s\w]*([0-9.]+%)\<close> (IGNORECASE)\<close>
  "backup_pattern =
     Cat [Or [Lit ''backup success'', Lit ''backup rate''], Rep (Set [Space, Word]) 0 None,
       Grp 1 (Cat [Rep (Set [d0_9, Ch CHR ''.'']) 1 None, Lit ''%''])]"

definition credit_pattern :: regex where
  \<comment> \<open>\<^verbatim>\<open>(?:service credit|penalty)[\s\w]*([0-9.]+%)[\s\w]*(?:below|under)[\s]*([0-9.]+%)\<close> (IGNORECASE)\<close>
  "credit_pattern =
     Cat [Or [Lit ''service credit'', Lit ''penalty''], Rep (Set [Space, Word]) 0 None,
       Grp 1 (Cat [Rep (Set [d0_9, Ch CHR ''.'']) 1 None, Lit ''%'']), Rep (Set [Space,
       Word]) 0 None, Or [Lit ''below'', Lit ''under''], Rep (Set [Space]) 0 None,
       Grp 2 (Cat [Rep (Set [d0_9, Ch CHR ''.'']) 1 None, Lit ''%''])]"

subsection \<open>Helpers shared by the extractors\<close>

definition squeeze :: "string \<Rightarrow> string" where
  \<comment> \<open>\<^verbatim>\<open>re.sub(r'\s+', ' ', s.replace('\n', ' ')).strip()\<close>\<close>
  "squeeze s = strip (re_sub no_flags spaces_re '' '' (replace (CHR 0x0A) '' '' s))"

definition amount :: "string \<Rightarrow> error + real" where
  \<comment> \<open>\<^verbatim>\<open>float(s.replace(',', ''))\<close>\<close>
  "amount s = py_float (replace CHR '','' [] s)"

definition truediv :: "real \<Rightarrow> int \<Rightarrow> error + real" where
  \<comment> \<open>\<^verbatim>\<open>x / n\<close> of a float by an int\<close>
  "truediv x n = (if n = 0 then Inl ZeroDivisionError else Inr (x / real_of_int n))"

definition and_then :: "error + 'a \<Rightarrow> ('a \<Rightarrow> error + 'b) \<Rightarrow> error + 'b" where
  \<comment> \<open>a step that may raise, and what follows it when it does not\<close>
  "and_then r f = (case r of Inl e \<Rightarrow> Inl e | Inr x \<Rightarrow> f x)"

fun for_each :: "('a \<Rightarrow> error + 'b) \<Rightarrow> 'a list \<Rightarrow> error + 'b list" where
  \<comment> \<open>a loop or comprehension whose body may raise: the first exception ends it\<close>
  "for_each f [] = Inr []"
| "for_each f (x # xs) =
     and_then (f x) (\<lambda>y. and_then (for_each f xs) (\<lambda>ys. Inr (y # ys)))"

definition first_of :: "'a list \<Rightarrow> 'a option" where
  \<comment> \<open>\<^verbatim>\<open>xs[0] if xs else None\<close>\<close>
  "first_of xs = (if xs \<noteq> [] then Some (xs ! 0) else None)"

definition second_of :: "'a list \<Rightarrow> 'a option" where
  \<comment> \<open>\<^verbatim>\<open>xs[1]\<close> under \<^verbatim>\<open>if len(xs) > 1\<close>, \<^verbatim>\<open>None\<close> otherwise\<close>
  "second_of xs = (if length xs > 1 then Some (xs ! 1) else None)"

function str_nat :: "nat \<Rightarrow> string" where
  \<comment> \<open>\<^verbatim>\<open>str(n)\<close>, as an f-string prints a length\<close>
  "str_nat n = (if n < 10 then [char_of (48 + n)] else str_nat (n div 10) @ [char_of (48 + n mod 10)])"
  by pat_completeness auto
termination
  by (relation "measure id") auto

subsection \<open>The party extractor\<close>

text \<open>
  \<^verbatim>\<open>PDFParser._extract_parties\<close> (pdf_parser.py, lines 64-202).

  \<^verbatim>\<open>list(set(company_matches + broad_matches))\<close> lists the distinct matches in the
  iteration order of a Python set of strings, which is fixed per process from randomised
  hashes and not by the text: that order is the parameter \<open>list_of_set\<close>. The function
  is one body in the source; its four blocks are named here by their lines.
\<close>

definition clean_company_name :: "string \<Rightarrow> string" where
  "clean_company_name nm =
     (let cleaned = squeeze nm;
          cleaned = re_sub IGNORECASE name_prefix_re [] cleaned;
          cleaned = re_sub IGNORECASE name_suffix_re [] cleaned
      in strip cleaned)"

definition invalid_terms :: "string list" where
  "invalid_terms =
     [''vp of'', ''vice president'', ''manager'', ''director'', ''ceo'', ''cfo'', ''president of'',
      ''liability'', ''shall'', ''will'', ''may'', ''service provider'', ''customer'', ''client'']"

definition valid_company :: "string \<Rightarrow> bool" where
  \<comment> \<open>the test of the loop that fills \<^verbatim>\<open>valid_companies\<close>\<close>
  "valid_company company =
     (length company \<ge> 5
      \<and> \<not> list_ex (\<lambda>t. contains (lower company) t) invalid_terms
      \<and> \<not> list_ex (\<lambda>p. startswith (lower company) p) [''the '', ''this '', ''such '', ''any ''])"

definition customer_patterns :: "regex list" where
  "customer_patterns = [customer_pattern_1, customer_pattern_2, customer_pattern_3]"

fun customer_from_patterns ::
  "regex list \<Rightarrow> string \<Rightarrow> string option \<Rightarrow> string option \<Rightarrow> string option" where
  \<comment> \<open>the loop over \<^verbatim>\<open>customer_patterns\<close>: the first acceptable match ends it\<close>
  "customer_from_patterns [] text service_provider_name customer_name = customer_name"
| "customer_from_patterns (pattern # rest) text service_provider_name customer_name =
     (case search IGNORECASE pattern text of
        None \<Rightarrow> customer_from_patterns rest text service_provider_name customer_name
      | Some m \<Rightarrow>
          (let potential_customer = clean_company_name (group m 1)
           in if Some potential_customer \<noteq> service_provider_name
                 \<and> length potential_customer \<ge> 5
                 \<and> \<not> list_ex (\<lambda>t. contains (lower potential_customer) t)
                       [''service provider'', ''liability'', ''shall'', ''will'']
              then Some potential_customer
              else customer_from_patterns rest text service_provider_name customer_name))"

definition resolve_service_provider_name ::
  "rmatch option \<Rightarrow> rmatch option \<Rightarrow> string list \<Rightarrow> string option" where
  \<comment> \<open>lines 114-121\<close>
  "resolve_service_provider_name consultant_match service_provider_match valid_companies =
     (case consultant_match of
        Some m \<Rightarrow> Some (clean_company_name (group m 1))
      | None \<Rightarrow>
          (case service_provider_match of
             Some m \<Rightarrow> Some (clean_company_name (group m 1))
           | None \<Rightarrow> first_of valid_companies))"

definition attach_service_provider ::
  "string option \<Rightarrow> string list \<Rightarrow> string list \<Rightarrow> string list \<Rightarrow> string list \<Rightarrow> Parties \<Rightarrow> Parties" where
  \<comment> \<open>lines 123-146\<close>
  "attach_service_provider service_provider_name emails phones addresses tax_ids ps =
     (if truthy_seq service_provider_name then
        ps\<lparr>service_provider := Some
          \<lparr>name = service_provider_name,
           address = map_option squeeze (first_of addresses),
           phone = first_of phones,
           email = first_of emails,
           tax_id = first_of tax_ids,
           account_number = None\<rparr>\<rparr>
      else ps)"

definition resolve_customer_name ::
  "rmatch option \<Rightarrow> string list \<Rightarrow> string option \<Rightarrow> string \<Rightarrow> string option" where
  \<comment> \<open>lines 148-175\<close>
  "resolve_customer_name client_match valid_companies service_provider_name text =
     (let customer_name =
            (case client_match of
               Some m \<Rightarrow> Some (clean_company_name (group m 1))
             | None \<Rightarrow>
                 if length valid_companies > 1
                 then find (\<lambda>company. Some company \<noteq> service_provider_name) valid_companies
                 else None)
      in if \<not> truthy_seq customer_name
         then customer_from_patterns customer_patterns text service_provider_name customer_name
         else customer_name)"

definition attach_customer ::
  "string option \<Rightarrow> string list \<Rightarrow> string list \<Rightarrow> string list \<Rightarrow> string list \<Rightarrow> Parties \<Rightarrow> Parties" where
  \<comment> \<open>lines 177-200\<close>
  "attach_customer customer_name emails phones addresses tax_ids ps =
     (if truthy_seq customer_name then
        ps\<lparr>customer := Some
          \<lparr>name = customer_name,
           address = map_option squeeze (second_of addresses),
           phone = second_of phones,
           email = second_of emails,
           tax_id = second_of tax_ids,
           account_number = None\<rparr>\<rparr>
      else ps)"

definition extract_parties :: "(string list \<Rightarrow> string list) \<Rightarrow> string \<Rightarrow> Parties" where
  "extract_parties list_of_set text =
     (let ps = new_Parties;
          emails = findall0 no_flags emails_re text;
          phones = findall0 no_flags phones_re text;
          addresses = findall0 IGNORECASE addresses_re text;
          tax_ids = findall1 IGNORECASE tax_ids_re text;
          company_matches = findall1 IGNORECASE p_company_name text;
          broad_matches = findall1 IGNORECASE_MULTILINE broad_company_pattern text;
          all_companies = map clean_company_name (list_of_set (company_matches @ broad_matches));
          valid_companies = filter valid_company all_companies;
          consultant_match = search IGNORECASE p_consultant_company text;
          service_provider_match = search IGNORECASE p_service_provider text;
          client_match = search IGNORECASE p_client_company text;
          service_provider_name =
            resolve_service_provider_name consultant_match service_provider_match valid_companies;
          ps = attach_service_provider service_provider_name emails phones addresses tax_ids ps;
          customer_name =
            resolve_customer_name client_match valid_companies service_provider_name text;
          ps = attach_customer customer_name emails phones addresses tax_ids ps
      in ps)"

subsection \<open>The financial extractor\<close>

text \<open>
  \<^verbatim>\<open>PDFParser._extract_financial_details\<close> (pdf_parser.py, lines 204-295). \<^verbatim>\<open>float\<close> and
  \<^verbatim>\<open>int\<close> raise ValueError on a string that is no number, so the extractor returns a record
  or raises. The function is one body in the source; its blocks are named here by their
  lines.
\<close>

definition service_line_item :: "string \<times> string \<times> string \<Rightarrow> error + LineItem" where
  \<comment> \<open>the body of the loop over \<^verbatim>\<open>service_matches\<close>\<close>
  "service_line_item m =
     (case m of (service_str, rate, unit_str) \<Rightarrow>
        (let service_name = squeeze service_str
         in and_then (amount rate) (\<lambda>price.
              (let unit_type = (if unit_str \<noteq> [] then lower unit_str else ''hour'')
               in Inr \<lparr>service = Some service_name,
                       quantity = Some 1,
                       unit = Some unit_type,
                       unit_price = Some price,
                       monthly_total = (if unit_type = ''fixed'' then Some price else None)\<rparr>))))"

definition hourly_line_item :: "string \<times> string \<times> string \<Rightarrow> error + LineItem" where
  \<comment> \<open>the body of the loop over \<^verbatim>\<open>hourly_matches\<close>; the keyword arguments are evaluated
      in the order written: the condition \<^verbatim>\<open>int(hours) > 0\<close>, the division or 0, then
      \<^verbatim>\<open>quantity\<close> and \<^verbatim>\<open>monthly_total\<close>\<close>
  "hourly_line_item m =
     (case m of (service_str, hours, total_str) \<Rightarrow>
        and_then (py_int hours) (\<lambda>n.
        and_then (if n > 0 then and_then (amount total_str) (\<lambda>t. truediv t n) else Inr 0) (\<lambda>price.
        and_then (amount total_str) (\<lambda>t.
          Inr \<lparr>service = Some (squeeze service_str),
                quantity = Some n,
                unit = Some ''hour'',
                unit_price = Some price,
                monthly_total = Some t\<rparr>))))"

definition add_fixed_fee :: "LineItem \<Rightarrow> (string \<times> real) list \<Rightarrow> (string \<times> real) list" where
  \<comment> \<open>\<^verbatim>\<open>if item.unit == "fixed": one_time_costs[item.service] = item.unit_price\<close> (every
      line item the extractor builds has a service and a unit price)\<close>
  "add_fixed_fee item costs =
     (if unit item = Some ''fixed'' then
        (case (service item, unit_price item) of
           (Some k, Some v) \<Rightarrow> AList.update k v costs
         | _ \<Rightarrow> costs)
      else costs)"

definition line_items_of :: "string \<Rightarrow> error + LineItem list" where
  \<comment> \<open>lines 218-249: the items of the two loops, in the order they are appended\<close>
  "line_items_of text =
     and_then (for_each service_line_item (findall3 IGNORECASE service_rate_pattern text))
       (\<lambda>service_items.
     and_then (for_each hourly_line_item (findall3 IGNORECASE hourly_pattern text))
       (\<lambda>hourly_items. Inr (service_items @ hourly_items)))"

definition monthly_costs_of :: "string \<Rightarrow> error + (string \<times> real) list" where
  \<comment> \<open>lines 253-259\<close>
  "monthly_costs_of text =
     (let monthly_costs = [];
          monthly_matches = findall1 IGNORECASE monthly_pattern text
      in if monthly_matches \<noteq> [] then
           and_then (amount (monthly_matches ! 0))
             (\<lambda>v. Inr (AList.update ''Monthly Total'' v monthly_costs))
         else Inr monthly_costs)"

definition one_time_costs_of :: "string \<Rightarrow> LineItem list \<Rightarrow> error + (string \<times> real) list" where
  \<comment> \<open>lines 261-272\<close>
  "one_time_costs_of text items =
     (let one_time_costs = [];
          setup_matches = findall1 IGNORECASE setup_pattern text
      in and_then (if setup_matches \<noteq> [] then
                     and_then (amount (setup_matches ! 0))
                       (\<lambda>v. Inr (AList.update ''Setup Fee'' v one_time_costs))
                   else Inr one_time_costs)
           (\<lambda>one_time_costs. Inr (foldl (\<lambda>costs item. add_fixed_fee item costs) one_time_costs items)))"

definition with_annual_contract_value ::
  "string \<Rightarrow> real \<Rightarrow> FinancialDetails \<Rightarrow> error + FinancialDetails" where
  \<comment> \<open>lines 281-291; \<open>monthly_sum\<close> is \<^verbatim>\<open>financial.total_monthly\<close>\<close>
  "with_annual_contract_value text monthly_sum financial =
     (let annual_matches = findall1 IGNORECASE annual_pattern text
      in if annual_matches \<noteq> [] then
           and_then (amount (annual_matches ! 0))
             (\<lambda>v. Inr (financial\<lparr>annual_contract_value := Some v\<rparr>))
         else if monthly_sum > 0 then
           (let term_matches = findall1 IGNORECASE p_contract_term text
            in and_then (if term_matches \<noteq> [] then py_int (term_matches ! 0) else Inr 12)
                 (\<lambda>contract_months.
                    Inr (financial\<lparr>annual_contract_value :=
                           Some (monthly_sum * real_of_int contract_months)\<rparr>)))
         else Inr financial)"

definition extract_financial_details :: "string \<Rightarrow> error + FinancialDetails" where
  "extract_financial_details text =
     (let financial = new_FinancialDetails;
          currency_amounts = findall1 IGNORECASE p_currency_amount text
      in and_then (for_each amount currency_amounts) (\<lambda>amounts.
         and_then (line_items_of text) (\<lambda>items.
         and_then (monthly_costs_of text) (\<lambda>monthly.
         and_then (one_time_costs_of text items) (\<lambda>one_time.
         (let monthly_sum = (if monthly \<noteq> [] then sum_list (map snd monthly) else 0);
              one_time_sum = (if one_time \<noteq> [] then sum_list (map snd one_time) else 0);
              financial = financial
                \<lparr>line_items := (if items \<noteq> [] then Some items else None),
                 monthly_costs := (if monthly \<noteq> [] then Some monthly else None),
                 one_time_costs := (if one_time \<noteq> [] then Some one_time else None),
                 total_monthly := Some monthly_sum,
                 total_one_time := Some one_time_sum\<rparr>
          in and_then (with_annual_contract_value text monthly_sum financial)
               (\<lambda>financial. Inr (financial\<lparr>currency := Some ''USD''\<rparr>))))))))"

subsection \<open>The payment structure extractor\<close>

text \<open>
  \<^verbatim>\<open>PDFParser._extract_payment_structure\<close> (pdf_parser.py, lines 297-362).
  \<^verbatim>\<open>payment.discount_terms = ...\<close> assigns to a name that \<^verbatim>\<open>PaymentStructure\<close> does not
  declare: a pydantic model refuses it with ValueError. \<^verbatim>\<open>BankingInfo\<close> is built from the
  keywords \<^verbatim>\<open>bank_name\<close>, \<^verbatim>\<open>account_number\<close>, \<^verbatim>\<open>routing_number\<close> and \<^verbatim>\<open>swift_code\<close>.
\<close>

definition extract_payment_structure :: "string \<Rightarrow> error + PaymentStructure" where
  "extract_payment_structure text =
     (let payment = new_PaymentStructure;
          payment_terms_matches = findall1 IGNORECASE p_payment_terms text;
          payment =
            (if payment_terms_matches \<noteq> [] then
               payment\<lparr>payment_terms := Some (''Net '' @ payment_terms_matches ! 0 @ '' days'')\<rparr>
             else
               (let alt_matches = findall1 IGNORECASE alt_terms_pattern text
                in if alt_matches \<noteq> [] then
                     payment\<lparr>payment_terms := Some (''Net '' @ alt_matches ! 0 @ '' days'')\<rparr>
                   else payment));
          payment_method_matches = findall1 IGNORECASE p_payment_method text;
          payment =
            (if payment_method_matches \<noteq> [] then
               payment\<lparr>payment_method := Some (strip (payment_method_matches ! 0))\<rparr>
             else payment);
          schedule_matches = findall0 IGNORECASE schedule_pattern text;
          payment =
            (if schedule_matches \<noteq> [] then
               payment\<lparr>payment_schedule := Some (schedule_matches ! 0)\<rparr>
             else if search IGNORECASE monthly_re text \<noteq> None then
               payment\<lparr>payment_schedule := Some ''Monthly recurring billing''\<rparr>
             else if search IGNORECASE quarterly_re text \<noteq> None then
               payment\<lparr>payment_schedule := Some ''Quarterly billing''\<rparr>
             else if search IGNORECASE annually_re text \<noteq> None then
               payment\<lparr>payment_schedule := Some ''Annual billing''\<rparr>
             else payment);
          late_fee_matches = findall1 IGNORECASE late_fee_pattern text;
          payment =
            (if late_fee_matches \<noteq> [] then
               payment\<lparr>late_payment_fee :=
                 Some (Str (late_fee_matches ! 0 @ '' per month on overdue amounts''))\<rparr>
             else payment);
          discount_matches = findall1 IGNORECASE discount_pattern text
      in if discount_matches \<noteq> [] then Inl ValueError
         else
           (let bank_matches = findall1 IGNORECASE bank_name_pattern text;
                account_matches = findall1 IGNORECASE account_pattern text;
                routing_matches = findall1 IGNORECASE routing_pattern text;
                swift_matches = findall1 IGNORECASE swift_pattern text;
                payment =
                  (if bank_matches \<noteq> [] \<or> account_matches \<noteq> [] \<or> routing_matches \<noteq> [] then
                     payment\<lparr>banking_info := Some (init_BankingInfo
                       [(''bank_name'', map_option strip (first_of bank_matches)),
                        (''account_number'', first_of account_matches),
                        (''routing_number'', first_of routing_matches),
                        (''swift_code'', first_of swift_matches)])\<rparr>
                   else payment)
            in Inr payment))"

subsection \<open>The account extractor\<close>

text \<open>\<^verbatim>\<open>PDFParser._extract_account_info\<close> (pdf_parser.py, lines 364-389).\<close>

definition extract_account_info :: "string \<Rightarrow> AccountInfo" where
  "extract_account_info text =
     (let acct = new_AccountInfo;
          account_matches = findall1 IGNORECASE p_account_number text;
          acct = (if account_matches \<noteq> [] then acct\<lparr>account_number_ai := Some (account_matches ! 0)\<rparr>
                  else acct);
          emails = findall1 IGNORECASE p_email text;
          billing_phones = findall1 IGNORECASE phone_pattern text;
          contact_matches = findall1 IGNORECASE contact_pattern text
      in if emails \<noteq> [] \<or> billing_phones \<noteq> [] \<or> contact_matches \<noteq> [] then
           acct\<lparr>billing_contact := Some
             \<lparr>name_bc = map_option strip (first_of contact_matches),
              title_bc = None,
              email_bc = first_of emails,
              phone_bc = first_of billing_phones\<rparr>\<rparr>
         else acct)"

subsection \<open>The revenue classifier\<close>

text \<open>\<^verbatim>\<open>PDFParser._extract_revenue_classification\<close> (pdf_parser.py, lines 391-433).\<close>

definition extract_revenue_classification :: "string \<Rightarrow> RevenueClassification" where
  "extract_revenue_classification text =
     (let revenue = new_RevenueClassification;
          term_matches = findall1 IGNORECASE p_contract_term text;
          revenue = (if term_matches \<noteq> [] then
                       revenue\<lparr>contract_term := Some (term_matches ! 0 @ '' months'')\<rparr>
                     else revenue);
          renewal_matches = findall1 IGNORECASE p_auto_renewal text;
          revenue = (if renewal_matches \<noteq> [] then
                       revenue\<lparr>auto_renewal := Some (renewal_matches ! 0 @ ''-month terms'')\<rparr>
                     else revenue);
          revenue =
            (if search IGNORECASE recurring_re text \<noteq> None then revenue\<lparr>type := Some ''recurring''\<rparr>
             else if search IGNORECASE one_time_re text \<noteq> None then revenue\<lparr>type := Some ''one-time''\<rparr>
             else revenue\<lparr>type := Some ''mixed''\<rparr>);
          revenue =
            (if search IGNORECASE monthly_re text \<noteq> None then revenue\<lparr>billing_cycle := Some ''monthly''\<rparr>
             else if search IGNORECASE quarterly_re text \<noteq> None then
               revenue\<lparr>billing_cycle := Some ''quarterly''\<rparr>
             else if search IGNORECASE annually_re text \<noteq> None then
               revenue\<lparr>billing_cycle := Some ''annual''\<rparr>
             else revenue);
          termination_matches = findall1 IGNORECASE termination_pattern text;
          revenue = (if termination_matches \<noteq> [] then
                       revenue\<lparr>termination_notice :=
                         Some (termination_matches ! 0 @ '' days written notice'')\<rparr>
                     else revenue);
          pricing_matches = findall1 IGNORECASE pricing_pattern text;
          revenue = (if pricing_matches \<noteq> [] then
                       revenue\<lparr>pricing_adjustments :=
                         Some (''Limited to '' @ pricing_matches ! 0 @ '' annually'')\<rparr>
                     else revenue)
      in revenue)"

subsection \<open>The SLA extractor\<close>

text \<open>
  \<^verbatim>\<open>PDFParser._extract_sla_terms\<close> (pdf_parser.py, lines 435-492). \<^verbatim>\<open>ResponseTimes\<close> is built
  from the keywords \<^verbatim>\<open>critical\<close>, \<^verbatim>\<open>high\<close>, \<^verbatim>\<open>medium\<close> and \<^verbatim>\<open>low\<close>, \<^verbatim>\<open>PerformanceMetrics\<close>
  from the keys of the dict \<^verbatim>\<open>performance_metrics\<close>, and each \<^verbatim>\<open>ServiceCredits\<close> from the
  keywords \<^verbatim>\<open>threshold\<close>, \<^verbatim>\<open>credit_percentage\<close> and \<^verbatim>\<open>description\<close>.
\<close>

definition extract_sla_terms :: "string \<Rightarrow> SLATerms" where
  "extract_sla_terms text =
     (let sla = new_SLATerms;
          uptime_matches = findall1 IGNORECASE p_uptime text;
          sla = (if uptime_matches \<noteq> [] then
                   sla\<lparr>uptime_commitment := Some (uptime_matches ! 0 @ '' uptime guarantee'')\<rparr>
                 else sla);
          critical_matches = findall1 IGNORECASE critical_pattern text;
          high_matches = findall1 IGNORECASE high_pattern text;
          medium_matches = findall1 IGNORECASE medium_pattern text;
          low_matches = findall1 IGNORECASE low_pattern text;
          sla = sla\<lparr>response_times := Some (init_ResponseTimes
                  [(''critical'', Some (if critical_matches \<noteq> [] then critical_matches ! 0 @ '' hours''
                                        else ''1 hour'')),
                   (''high'', Some (if high_matches \<noteq> [] then high_matches ! 0 @ '' hours''
                                    else ''4 hours'')),
                   (''medium'', Some (if medium_matches \<noteq> [] then medium_matches ! 0 @ '' hours''
                                      else ''8 hours'')),
                   (''low'', Some (if low_matches \<noteq> [] then low_matches ! 0 @ '' hours''
                                   else ''24 hours''))])\<rparr>;
          performance = [];
          response_perf = findall1 IGNORECASE response_time_pattern text;
          backup_perf = findall1 IGNORECASE backup_pattern text;
          performance =
            (if response_perf \<noteq> [] then
               AList.update ''system_response_time'' (Some (''< '' @ response_perf ! 0 @ '' seconds''))
                 performance
             else performance);
          performance =
            (if backup_perf \<noteq> [] then
               AList.update ''backup_success_rate'' (Some (backup_perf ! 0)) performance
             else performance);
          sla = sla\<lparr>performance_metrics :=
                  (if performance \<noteq> [] then Some (init_PerformanceMetrics performance) else None)\<rparr>;
          credit_matches = findall2 IGNORECASE credit_pattern text;
          credits =
            map (\<lambda>(credit_percent, threshold). init_ServiceCredits
                   [(''threshold'', Some (''< '' @ threshold @ '' uptime'')),
                    (''credit_percentage'', Some (credit_percent @ '' monthly fee credit'')),
                    (''description'', Some (''Service credit for uptime below '' @ threshold))])
              credit_matches;
          sla = sla\<lparr>service_credits := Some (Credits_list credits)\<rparr>
      in sla)"

subsection \<open>The gap analyzer\<close>

text \<open>\<^verbatim>\<open>PDFParser._analyze_gaps\<close> (pdf_parser.py, lines 494-542).\<close>

definition append_if :: "bool \<Rightarrow> 'a \<Rightarrow> 'a list \<Rightarrow> 'a list" where
  \<comment> \<open>\<^verbatim>\<open>if c: xs.append(x)\<close>\<close>
  "append_if c x xs = (if c then xs @ [x] else xs)"

definition analyze_gaps ::
  "Parties \<Rightarrow> FinancialDetails \<Rightarrow> PaymentStructure \<Rightarrow> SLATerms \<Rightarrow> GapAnalysis" where
  "analyze_gaps ps fd pay sla =
     (let missing = [];
          incomplete = [];
          note_list = [];
          missing = append_if (\<not> and_field (service_provider ps) name) ''service_provider_name'' missing;
          missing = append_if (\<not> and_field (customer ps) name) ''customer_name'' missing;
          incomplete = append_if
            (truthy_obj (service_provider ps) \<and> \<not> and_field (service_provider ps) email)
            ''service_provider_contact'' incomplete;
          incomplete = append_if
            (truthy_obj (customer ps) \<and> \<not> and_field (customer ps) email)
            ''customer_contact'' incomplete;
          missing = append_if (\<not> truthy_float (annual_contract_value fd)) ''annual_contract_value''
            missing;
          missing = append_if
            (\<not> truthy_seq (monthly_costs fd) \<and> \<not> truthy_seq (one_time_costs fd))
            ''cost_breakdown'' missing;
          missing = append_if (\<not> truthy_seq (payment_terms pay)) ''payment_terms'' missing;
          incomplete = append_if (\<not> truthy_seq (payment_method pay)) ''payment_method'' incomplete;
          missing = append_if (\<not> truthy_seq (uptime_commitment sla)) ''uptime_commitment'' missing;
          missing = append_if (\<not> truthy_obj (response_times sla)) ''response_times'' missing;
          note_list = append_if (missing \<noteq> [])
            (''Contract is missing '' @ str_nat (length missing) @ '' critical fields'') note_list;
          note_list = append_if (incomplete \<noteq> [])
            (''Contract has '' @ str_nat (length incomplete) @ '' incomplete sections'') note_list;
          note_list = append_if (missing = [] \<and> incomplete = [])
            ''Contract appears to be comprehensive with all major sections present'' note_list
      in \<lparr>missing_fields = Some missing,
          incomplete_fields = Some incomplete,
          notes_ga = (if note_list \<noteq> [] then Some (join ''; '' note_list) else None)\<rparr>)"

subsection \<open>The orchestrator\<close>

text \<open>
  \<^verbatim>\<open>PDFParser.parse_contract\<close> (pdf_parser.py, lines 608-638). The PDF reader
  (\<^verbatim>\<open>_extract_text_from_pdf\<close>, PyPDF2) is the parameter \<open>extract_text_from_pdf\<close>: it gives
  the text or raises. Every exception leaves \<^verbatim>\<open>parse_contract\<close> as a ValueError.

  \<^verbatim>\<open>ExtractedData\<close> is built from seven keywords, the six sub-records and
  \<^verbatim>\<open>gap_analysis\<close>; it declares the six fields of \<open>ExtractedData_fields\<close>.
\<close>

datatype model_arg =
    Arg_Parties Parties
  | Arg_AccountInfo AccountInfo
  | Arg_FinancialDetails FinancialDetails
  | Arg_PaymentStructure PaymentStructure
  | Arg_RevenueClassification RevenueClassification
  | Arg_SLATerms SLATerms
  | Arg_GapAnalysis GapAnalysis

definition ExtractedData_fields :: "string list" where
  \<comment> \<open>the fields that class \<^verbatim>\<open>ExtractedData\<close> declares (models.py, lines 176-184)\<close>
  "ExtractedData_fields =
     [''parties'', ''account_info'', ''financial_details'', ''payment_structure'',
      ''revenue_classification'', ''sla_terms'']"

definition declared_arg :: "(string \<times> model_arg) list \<Rightarrow> string \<Rightarrow> model_arg option" where
  \<comment> \<open>the keyword argument that fills a field: none for a name that is not declared\<close>
  "declared_arg kwargs field = (if field \<in> set ExtractedData_fields then map_of kwargs field else None)"

definition init_ExtractedData :: "(string \<times> model_arg) list \<Rightarrow> ExtractedData" where
  "init_ExtractedData kwargs =
     \<lparr>parties = (case declared_arg kwargs ''parties'' of Some (Arg_Parties x) \<Rightarrow> Some x | _ \<Rightarrow> None),
      account_info =
        (case declared_arg kwargs ''account_info'' of Some (Arg_AccountInfo x) \<Rightarrow> Some x | _ \<Rightarrow> None),
      financial_details =
        (case declared_arg kwargs ''financial_details'' of
           Some (Arg_FinancialDetails x) \<Rightarrow> Some x | _ \<Rightarrow> None),
      payment_structure =
        (case declared_arg kwargs ''payment_structure'' of
           Some (Arg_PaymentStructure x) \<Rightarrow> Some x | _ \<Rightarrow> None),
      revenue_classification =
        (case declared_arg kwargs ''revenue_classification'' of
           Some (Arg_RevenueClassification x) \<Rightarrow> Some x | _ \<Rightarrow> None),
      sla_terms =
        (case declared_arg kwargs ''sla_terms'' of Some (Arg_SLATerms x) \<Rightarrow> Some x | _ \<Rightarrow> None)\<rparr>"

definition model_dump :: "ExtractedData \<Rightarrow> (string \<times> model_arg option) list" where
  \<comment> \<open>the fields an \<^verbatim>\<open>ExtractedData\<close> object holds, by name\<close>
  "model_dump d =
     [(''parties'', map_option Arg_Parties (parties d)),
      (''account_info'', map_option Arg_AccountInfo (account_info d)),
      (''financial_details'', map_option Arg_FinancialDetails (financial_details d)),
      (''payment_structure'', map_option Arg_PaymentStructure (payment_structure d)),
      (''revenue_classification'', map_option Arg_RevenueClassification (revenue_classification d)),
      (''sla_terms'', map_option Arg_SLATerms (sla_terms d))]"

definition parse_sections ::
  "(string list \<Rightarrow> string list) \<Rightarrow> string \<Rightarrow> error + (string \<times> model_arg) list" where
  \<comment> \<open>the body of the \<^verbatim>\<open>try\<close> from the six extractors on: the keyword arguments that
      \<^verbatim>\<open>ExtractedData\<close> is built from\<close>
  "parse_sections list_of_set text =
     (let ps = extract_parties list_of_set text
      in and_then (extract_financial_details text) (\<lambda>fd.
         and_then (extract_payment_structure text) (\<lambda>pay.
         (let acct = extract_account_info text;
              revenue = extract_revenue_classification text;
              sla = extract_sla_terms text;
              gaps = analyze_gaps ps fd pay sla
          in Inr [(''parties'', Arg_Parties ps),
                  (''financial_details'', Arg_FinancialDetails fd),
                  (''payment_structure'', Arg_PaymentStructure pay),
                  (''account_info'', Arg_AccountInfo acct),
                  (''revenue_classification'', Arg_RevenueClassification revenue),
                  (''sla_terms'', Arg_SLATerms sla),
                  (''gap_analysis'', Arg_GapAnalysis gaps)]))))"

definition parse_contract ::
  "('pdf \<Rightarrow> error + string) \<Rightarrow> (string list \<Rightarrow> string list) \<Rightarrow> 'pdf \<Rightarrow> error + ExtractedData" where
  "parse_contract extract_text_from_pdf list_of_set pdf_content =
     (case and_then (extract_text_from_pdf pdf_content) (parse_sections list_of_set) of
        Inl e \<Rightarrow> Inl ValueError
      | Inr kwargs \<Rightarrow> Inr (init_ExtractedData kwargs))"

subsection \<open>The caller (contract_service.py)\<close>

text \<open>
  \<^verbatim>\<open>ContractService.process_contract\<close> (contract_service.py, lines 109-124) parses the file,
  scores the record that \<^verbatim>\<open>parse_contract\<close> returned and stores both in a
  \<^verbatim>\<open>ContractDataModel\<close>; \<open>contract_data\<close> is that object without its generated id and its
  date. No \<^verbatim>\<open>gap_analysis\<close> is passed to it.
\<close>

record ContractDataModel =
  contract_id :: string
  extracted_data :: ExtractedData
  confidence_score :: real
  gap_analysis :: "GapAnalysis option"

definition contract_data ::
  "('pdf \<Rightarrow> error + string) \<Rightarrow> (string list \<Rightarrow> string list) \<Rightarrow> string \<Rightarrow> 'pdf
     \<Rightarrow> error + ContractDataModel" where
  "contract_data extract_text_from_pdf list_of_set cid file_content =
     and_then (parse_contract extract_text_from_pdf list_of_set file_content) (\<lambda>data.
       Inr \<lparr>contract_id = cid,
             extracted_data = data,
             confidence_score = real_of_int (calculate_confidence_score data),
             gap_analysis = None\<rparr>)"

section \<open>Properties\<close>

subsection \<open>The confidence scorer\<close>

lemma add_if_points: "add_if c n s = s + points c n"
  by (simp add: points_def add_if_def)

lemma points_bounds: "0 \<le> w \<Longrightarrow> 0 \<le> points c w \<and> points c w \<le> w"
  by (simp add: points_def)

lemma points_False: "points False w = 0"
  by (simp add: points_def)

lemma table_sum_unfold:
  "table_sum m d =
     points (m Annual_contract_value d) 10 + points (m Cost_breakdown d) 10 + points (m Line_items d) 10
   + points (m Provider_name d) 10 + points (m Customer_name d) 10 + points (m Party_email d) 5
   + points (m Payment_terms d) 10 + points (m Payment_method d) 5 + points (m Payment_schedule d) 5
   + points (m Uptime_commitment d) 5 + points (m Response_times d) 5 + points (m Performance_metrics d) 5
   + points (m Billing_email d) 5 + points (m Billing_phone d) 5"
  by (simp add: table_sum_def weight_table_def)

lemma table_sum_range: "0 \<le> table_sum m d \<and> table_sum m d \<le> 100"
proof -
  have "0 \<le> points (m Annual_contract_value d) 10 \<and> points (m Annual_contract_value d) 10 \<le> 10"
       "0 \<le> points (m Cost_breakdown d) 10 \<and> points (m Cost_breakdown d) 10 \<le> 10"
       "0 \<le> points (m Line_items d) 10 \<and> points (m Line_items d) 10 \<le> 10"
       "0 \<le> points (m Provider_name d) 10 \<and> points (m Provider_name d) 10 \<le> 10"
       "0 \<le> points (m Customer_name d) 10 \<and> points (m Customer_name d) 10 \<le> 10"
       "0 \<le> points (m Party_email d) 5 \<and> points (m Party_email d) 5 \<le> 5"
       "0 \<le> points (m Payment_terms d) 10 \<and> points (m Payment_terms d) 10 \<le> 10"
       "0 \<le> points (m Payment_method d) 5 \<and> points (m Payment_method d) 5 \<le> 5"
       "0 \<le> points (m Payment_schedule d) 5 \<and> points (m Payment_schedule d) 5 \<le> 5"
       "0 \<le> points (m Uptime_commitment d) 5 \<and> points (m Uptime_commitment d) 5 \<le> 5"
       "0 \<le> points (m Response_times d) 5 \<and> points (m Response_times d) 5 \<le> 5"
       "0 \<le> points (m Performance_metrics d) 5 \<and> points (m Performance_metrics d) 5 \<le> 5"
       "0 \<le> points (m Billing_email d) 5 \<and> points (m Billing_email d) 5 \<le> 5"
       "0 \<le> points (m Billing_phone d) 5 \<and> points (m Billing_phone d) 5 \<le> 5"
    by (rule points_bounds, simp)+
  then show ?thesis unfolding table_sum_unfold by linarith
qed

lemma and_field_bind: "and_field p f = truthy_seq (Option.bind p f)"
  by (cases p) (simp_all add: and_field_def truthy_seq_def)

lemma truthy_None: "truthy_seq None = False" "truthy_float None = False" "truthy_obj None = False"
  by (simp_all add: truthy_seq_def truthy_float_def truthy_obj_def)

lemma score_is_table_sum: "calculate_confidence_score d = min (table_sum truthy d) 100"
  unfolding calculate_confidence_score_def table_sum_unfold
  by (cases "financial_details d"; cases "parties d"; cases "payment_structure d";
      cases "sla_terms d"; cases "Option.bind (account_info d) billing_contact")
     (simp_all add: Let_def add_if_points points_False and_field_bind truthy_None
        provider_of_def customer_of_def contact_of_def)

lemma table_sum_cong: "(\<And>r. m r d = m r d') \<Longrightarrow> table_sum m d = table_sum m d'"
  by (simp add: table_sum_unfold)

text \<open>
  Claim C2, as stated: the score is the clamped sum of the rows whose field is present.
  It fails on a record whose annual contract value is present and zero: the field is
  there, the row is worth 10, and the score is 0.
\<close>

theorem C2_present_rows_counterexample:
  "calculate_confidence_score
     (new_ExtractedData\<lparr>financial_details :=
        Some (new_FinancialDetails\<lparr>annual_contract_value := Some 0\<rparr>)\<rparr>) = 0
   \<and> clamp_0_100 (table_sum present
     (new_ExtractedData\<lparr>financial_details :=
        Some (new_FinancialDetails\<lparr>annual_contract_value := Some 0\<rparr>)\<rparr>)) = 10"
  by (simp add: score_is_table_sum table_sum_unfold clamp_0_100_def new_ExtractedData_def
      new_FinancialDetails_def points_def truthy_None truthy_float_def
      provider_of_def customer_of_def contact_of_def)

text \<open>
  Claim C2, as amended: for every ExtractedData record the score is exactly the sum of the
  matched rows of the weight table, a row being matched when its field is true in Python's
  sense (present, and not zero, not an empty string, list or dict; a sub-record object
  whenever present), clamped to [0, 100]; the score is an integer in [0, 100], and two
  records whose fields have the same truth values row by row get the same score.
\<close>

theorem C2_score_is_sum_of_true_rows:
  "calculate_confidence_score d = clamp_0_100 (table_sum truthy d)
   \<and> 0 \<le> calculate_confidence_score d \<and> calculate_confidence_score d \<le> 100
   \<and> ((\<forall>r. truthy r d = truthy r d')
        \<longrightarrow> calculate_confidence_score d = calculate_confidence_score d')"
proof -
  have "calculate_confidence_score d = table_sum truthy d"
    using table_sum_range[of truthy d] by (simp add: score_is_table_sum)
  moreover have "calculate_confidence_score d' = table_sum truthy d'"
    using table_sum_range[of truthy d'] by (simp add: score_is_table_sum)
  moreover have "(\<forall>r. truthy r d = truthy r d') \<longrightarrow> table_sum truthy d = table_sum truthy d'"
    by (simp add: table_sum_unfold)
  ultimately show ?thesis
    using table_sum_range[of truthy d] by (simp add: clamp_0_100_def)
qed

theorem C2_score_is_sum_of_true_rows_witness:
  "calculate_confidence_score
     (new_ExtractedData\<lparr>financial_details :=
        Some (new_FinancialDetails\<lparr>annual_contract_value := Some 5\<rparr>)\<rparr>) = 10
   \<and> calculate_confidence_score
     (new_ExtractedData\<lparr>financial_details :=
        Some (new_FinancialDetails\<lparr>annual_contract_value := Some 7\<rparr>)\<rparr>) = 10"
proof -
  let ?d = "new_ExtractedData\<lparr>financial_details :=
              Some (new_FinancialDetails\<lparr>annual_contract_value := Some 5\<rparr>)\<rparr>"
  let ?d' = "new_ExtractedData\<lparr>financial_details :=
              Some (new_FinancialDetails\<lparr>annual_contract_value := Some 7\<rparr>)\<rparr>"
  have same: "\<forall>r. truthy r ?d = truthy r ?d'"
  proof
    fix r show "truthy r ?d = truthy r ?d'"
      by (cases r) (simp_all add: new_ExtractedData_def new_FinancialDetails_def truthy_float_def
          provider_of_def customer_of_def contact_of_def)
  qed
  have sum: "table_sum truthy ?d = 10"
    by (simp add: table_sum_unfold new_ExtractedData_def new_FinancialDetails_def points_def
        truthy_None truthy_float_def provider_of_def customer_of_def contact_of_def)
  show ?thesis
    using C2_score_is_sum_of_true_rows [of ?d ?d'] same sum by (simp add: clamp_0_100_def)
qed

text \<open>
  Claim C10: two ExtractedData records that are equal in every field except
  revenue_classification get the same confidence score.
\<close>

theorem C10_score_ignores_revenue_classification:
  assumes "parties d1 = parties d2" and "account_info d1 = account_info d2"
    and "financial_details d1 = financial_details d2"
    and "payment_structure d1 = payment_structure d2"
    and "sla_terms d1 = sla_terms d2"
  shows "calculate_confidence_score d1 = calculate_confidence_score d2"
  using assms unfolding calculate_confidence_score_def by simp

theorem C10_score_ignores_revenue_classification_witness:
  "calculate_confidence_score
     (new_ExtractedData\<lparr>revenue_classification :=
        Some (new_RevenueClassification\<lparr>type := Some ''recurring''\<rparr>)\<rparr>)
   = calculate_confidence_score new_ExtractedData"
  by (rule C10_score_ignores_revenue_classification) (simp_all add: new_ExtractedData_def)

subsection \<open>The SLA extractor and the gap analyzer\<close>

lemma init_ResponseTimes_unknown_keywords:
  "init_ResponseTimes [(''critical'', a), (''high'', b), (''medium'', c), (''low'', d)]
   = \<lparr>critical_issues = None, high_priority = None, medium_priority = None, low_priority = None\<rparr>"
  by (simp add: init_ResponseTimes_def)

lemma response_times_of_extract_sla_terms:
  "response_times (extract_sla_terms text) =
     Some \<lparr>critical_issues = None, high_priority = None, medium_priority = None, low_priority = None\<rparr>"
  by (simp add: extract_sla_terms_def Let_def init_ResponseTimes_unknown_keywords split del: if_split)

lemma analyze_gaps_response_times:
  assumes "response_times sla \<noteq> None"
  shows "\<exists>m. missing_fields (analyze_gaps ps fd pay sla) = Some m \<and> ''response_times'' \<notin> set m"
  using assms by (simp add: analyze_gaps_def Let_def append_if_def truthy_obj_def)

lemma parse_sections_gap_analysis:
  assumes "parse_sections list_of_set text = Inr kwargs"
  shows "\<exists>fd pay. extract_financial_details text = Inr fd \<and> extract_payment_structure text = Inr pay
           \<and> kwargs =
               [(''parties'', Arg_Parties (extract_parties list_of_set text)),
                (''financial_details'', Arg_FinancialDetails fd),
                (''payment_structure'', Arg_PaymentStructure pay),
                (''account_info'', Arg_AccountInfo (extract_account_info text)),
                (''revenue_classification'', Arg_RevenueClassification (extract_revenue_classification text)),
                (''sla_terms'', Arg_SLATerms (extract_sla_terms text)),
                (''gap_analysis'', Arg_GapAnalysis
                   (analyze_gaps (extract_parties list_of_set text) fd pay (extract_sla_terms text)))]"
  using assms
  by (cases "extract_financial_details text"; cases "extract_payment_structure text")
     (auto simp add: parse_sections_def and_then_def Let_def)

text \<open>
  Claim C1 fails on the code. On the empty text none of the four severity-tier patterns
  matches, and the four tiers of the response_times record are absent, not the defaults:
  the keywords \<^verbatim>\<open>critical\<close>, \<^verbatim>\<open>high\<close>, \<^verbatim>\<open>medium\<close>, \<^verbatim>\<open>low\<close> name no field of
  \<^verbatim>\<open>ResponseTimes\<close> (\<^verbatim>\<open>critical_issues\<close>, \<^verbatim>\<open>high_priority\<close>, \<^verbatim>\<open>medium_priority\<close>,
  \<^verbatim>\<open>low_priority\<close>), so the values passed under them are dropped.
\<close>

theorem C1_response_times_defaults_are_dropped:
  "findall1 IGNORECASE critical_pattern [] = []
   \<and> findall1 IGNORECASE high_pattern [] = []
   \<and> findall1 IGNORECASE medium_pattern [] = []
   \<and> findall1 IGNORECASE low_pattern [] = []
   \<and> response_times (extract_sla_terms []) =
       Some \<lparr>critical_issues = None, high_priority = None, medium_priority = None, low_priority = None\<rparr>"
  by code_simp

text \<open>
  Claim C5: whatever the text, the gap analysis that the pipeline computes does not list
  \<^verbatim>\<open>response_times\<close> among its missing fields: the SLA extractor always sets
  response_times to a \<^verbatim>\<open>ResponseTimes\<close> object, and an object is true.
\<close>

theorem C5_response_times_never_missing:
  assumes "parse_sections list_of_set text = Inr kwargs"
  shows "\<exists>gaps missing. map_of kwargs ''gap_analysis'' = Some (Arg_GapAnalysis gaps)
           \<and> missing_fields gaps = Some missing \<and> ''response_times'' \<notin> set missing"
proof -
  from parse_sections_gap_analysis[OF assms] obtain fd pay where
    kw: "map_of kwargs ''gap_analysis'' = Some (Arg_GapAnalysis
           (analyze_gaps (extract_parties list_of_set text) fd pay (extract_sla_terms text)))"
    by auto
  have "response_times (extract_sla_terms text) \<noteq> None"
    by (simp add: response_times_of_extract_sla_terms)
  from analyze_gaps_response_times[OF this] kw show ?thesis by blast
qed

theorem C5_response_times_never_missing_witness:
  "\<exists>kwargs gaps. parse_sections remdups [] = Inr kwargs
     \<and> map_of kwargs ''gap_analysis'' = Some (Arg_GapAnalysis gaps)
     \<and> missing_fields gaps =
         Some [''service_provider_name'', ''customer_name'', ''annual_contract_value'',
               ''cost_breakdown'', ''payment_terms'', ''uptime_commitment'']"
proof -
  have ev: "(case parse_sections remdups [] of
               Inl e \<Rightarrow> None
             | Inr kwargs \<Rightarrow>
                 (case map_of kwargs ''gap_analysis'' of
                    Some (Arg_GapAnalysis gaps) \<Rightarrow> missing_fields gaps
                  | _ \<Rightarrow> None))
            = Some [''service_provider_name'', ''customer_name'', ''annual_contract_value'',
                    ''cost_breakdown'', ''payment_terms'', ''uptime_commitment'']"
    by code_simp
  then obtain kwargs where k: "parse_sections remdups [] = Inr kwargs"
    by (cases "parse_sections remdups []") simp_all
  from C5_response_times_never_missing[OF k] obtain gaps where
    g: "map_of kwargs ''gap_analysis'' = Some (Arg_GapAnalysis gaps)" by blast
  from ev k g show ?thesis by simp
qed

subsection \<open>The party extractor\<close>

lemma service_provider_attach_customer:
  "service_provider (attach_customer cn e p a t ps) = service_provider ps"
  by (simp add: attach_customer_def)

lemma attach_service_provider_Some:
  "service_provider (attach_service_provider n e p a t new_Parties) = Some sp \<Longrightarrow>
     name sp = n \<and> n \<noteq> None \<and> email sp = first_of e \<and> phone sp = first_of p
     \<and> address sp = map_option squeeze (first_of a) \<and> tax_id sp = first_of t"
  by (auto simp add: attach_service_provider_def new_Parties_def truthy_seq_def
      split: if_splits option.splits)

lemma attach_customer_Some:
  "customer (attach_customer n e p a t (attach_service_provider n' e' p' a' t' new_Parties)) = Some c \<Longrightarrow>
     name c = n \<and> n \<noteq> None \<and> email c = second_of e \<and> phone c = second_of p
     \<and> address c = map_option squeeze (second_of a) \<and> tax_id c = second_of t"
  by (auto simp add: attach_customer_def attach_service_provider_def new_Parties_def truthy_seq_def
      split: if_splits option.splits)

text \<open>
  Claim C8: when the party extractor resolves both names, the service provider's PartyInfo
  holds the first email, phone, address (with its white space squeezed) and tax ID found in
  the text, each when there is one, and the customer's PartyInfo holds the second of each,
  each when there are two; nothing else decides which party a contact detail goes to.
\<close>

theorem C8_contacts_attached_by_position:
  assumes "service_provider (extract_parties list_of_set text) = Some sp"
    and "customer (extract_parties list_of_set text) = Some c"
  shows "email sp = first_of (findall0 no_flags emails_re text)
       \<and> phone sp = first_of (findall0 no_flags phones_re text)
       \<and> address sp = map_option squeeze (first_of (findall0 IGNORECASE addresses_re text))
       \<and> tax_id sp = first_of (findall1 IGNORECASE tax_ids_re text)
       \<and> email c = second_of (findall0 no_flags emails_re text)
       \<and> phone c = second_of (findall0 no_flags phones_re text)
       \<and> address c = map_option squeeze (second_of (findall0 IGNORECASE addresses_re text))
       \<and> tax_id c = second_of (findall1 IGNORECASE tax_ids_re text)"
proof -
  from assms(1) have "email sp = first_of (findall0 no_flags emails_re text)
       \<and> phone sp = first_of (findall0 no_flags phones_re text)
       \<and> address sp = map_option squeeze (first_of (findall0 IGNORECASE addresses_re text))
       \<and> tax_id sp = first_of (findall1 IGNORECASE tax_ids_re text)"
    unfolding extract_parties_def Let_def service_provider_attach_customer
    by (auto dest: attach_service_provider_Some)
  moreover from assms(2) have "email c = second_of (findall0 no_flags emails_re text)
       \<and> phone c = second_of (findall0 no_flags phones_re text)
       \<and> address c = map_option squeeze (second_of (findall0 IGNORECASE addresses_re text))
       \<and> tax_id c = second_of (findall1 IGNORECASE tax_ids_re text)"
    unfolding extract_parties_def Let_def
    by (auto dest: attach_customer_Some)
  ultimately show ?thesis by simp
qed

text \<open>
  In the witness the first email of the text is the client's: it goes to the service
  provider.
\<close>

theorem C8_contacts_attached_by_position_witness:
  "findall0 no_flags emails_re
     (''Client: Beta Inc'' @ [CHR 0x0A] @ ''beta@b.co'' @ [CHR 0x0A]
        @ ''Consultant: Acme LLC'' @ [CHR 0x0A] @ ''acme@a.co'')
     = [''beta@b.co'', ''acme@a.co'']
   \<and> Option.bind (service_provider (extract_parties remdups
        (''Client: Beta Inc'' @ [CHR 0x0A] @ ''beta@b.co'' @ [CHR 0x0A]
          @ ''Consultant: Acme LLC'' @ [CHR 0x0A] @ ''acme@a.co''))) name = Some ''Acme LLC''
   \<and> Option.bind (service_provider (extract_parties remdups
        (''Client: Beta Inc'' @ [CHR 0x0A] @ ''beta@b.co'' @ [CHR 0x0A]
          @ ''Consultant: Acme LLC'' @ [CHR 0x0A] @ ''acme@a.co''))) email = Some ''beta@b.co''
   \<and> Option.bind (customer (extract_parties remdups
        (''Client: Beta Inc'' @ [CHR 0x0A] @ ''beta@b.co'' @ [CHR 0x0A]
          @ ''Consultant: Acme LLC'' @ [CHR 0x0A] @ ''acme@a.co''))) name = Some ''Beta Inc''
   \<and> Option.bind (customer (extract_parties remdups
        (''Client: Beta Inc'' @ [CHR 0x0A] @ ''beta@b.co'' @ [CHR 0x0A]
          @ ''Consultant: Acme LLC'' @ [CHR 0x0A] @ ''acme@a.co''))) email = Some ''acme@a.co''"
proof -
  let ?text = "''Client: Beta Inc'' @ [CHR 0x0A] @ ''beta@b.co'' @ [CHR 0x0A]
                 @ ''Consultant: Acme LLC'' @ [CHR 0x0A] @ ''acme@a.co''"
  have emails: "findall0 no_flags emails_re ?text = [''beta@b.co'', ''acme@a.co'']"
    by code_simp
  have names: "Option.bind (service_provider (extract_parties remdups ?text)) name = Some ''Acme LLC''
     \<and> Option.bind (customer (extract_parties remdups ?text)) name = Some ''Beta Inc''"
    by code_simp
  then obtain sp c where sp: "service_provider (extract_parties remdups ?text) = Some sp"
    and c: "customer (extract_parties remdups ?text) = Some c"
    by (cases "service_provider (extract_parties remdups ?text)";
        cases "customer (extract_parties remdups ?text)") simp_all
  from C8_contacts_attached_by_position[OF sp c] emails
  have "email sp = Some ''beta@b.co'' \<and> email c = Some ''acme@a.co''"
    by (simp add: first_of_def second_of_def)
  with emails names sp c show ?thesis by simp
qed

text \<open>
  Claim C9: a service_provider record that the party extractor returns has a name, and so
  has a customer record.
\<close>

theorem C9_populated_party_has_name:
  "(\<forall>p. service_provider (extract_parties list_of_set text) = Some p \<longrightarrow> name p \<noteq> None)
   \<and> (\<forall>p. customer (extract_parties list_of_set text) = Some p \<longrightarrow> name p \<noteq> None)"
proof (intro conjI allI impI)
  fix p assume "service_provider (extract_parties list_of_set text) = Some p"
  then show "name p \<noteq> None"
    unfolding extract_parties_def Let_def service_provider_attach_customer
    by (auto dest: attach_service_provider_Some)
next
  fix p assume "customer (extract_parties list_of_set text) = Some p"
  then show "name p \<noteq> None"
    unfolding extract_parties_def Let_def
    by (auto dest: attach_customer_Some)
qed

theorem C9_populated_party_has_name_witness:
  "Option.bind (service_provider (extract_parties remdups ''Consultant: Acme LLC'')) name
     = Some ''Acme LLC''
   \<and> customer (extract_parties remdups ''Consultant: Acme LLC'') = None"
proof -
  have ev: "Option.bind (service_provider (extract_parties remdups ''Consultant: Acme LLC'')) name
     = Some ''Acme LLC''
   \<and> customer (extract_parties remdups ''Consultant: Acme LLC'') = None"
    by code_simp
  with C9_populated_party_has_name[of remdups "''Consultant: Acme LLC''"] show ?thesis by simp
qed

end
